theory Spec2Isabelle
  imports Main "HOL-Library.Sublist" "HOL-Library.AList"
begin

section \<open>Data model\<close>

text \<open>
  The two Sequelize models of the repository (\<^verbatim>\<open>User\<close> and \<^verbatim>\<open>Course\<close>), the
  values that travel through Express (request, response) and the values the third-party
  libraries hand to the route code (\<^verbatim>\<open>basic-auth\<close> credentials, thrown errors).
  The primary keys are called \<open>user_id\<close> and \<open>course_id\<close> because \<open>id\<close> is the
  identity function of HOL.
\<close>

record user =
  user_id :: int
  firstName :: string
  lastName :: string
  emailAddress :: string
  password :: string

record course =
  course_id :: int
  title :: string
  description :: string
  estimatedTime :: "string option"
  materialsNeeded :: "string option"
  userId :: int

datatype json = JNull | JBool bool | JNum int | JStr string | JArr "json list"
  | JObj "(string \<times> json) list"

type_synonym jsobject = "(string \<times> json) list"

text \<open>What \<^verbatim>\<open>auth(req)\<close> of basic-auth returns when it returns an object.\<close>

record credentials =
  name :: string
  pass :: string

text \<open>A thrown JavaScript error; the route code only ever reads \<^verbatim>\<open>error.name\<close>.\<close>

datatype error = Error (error_name: string)

record request =
  headers :: "(string \<times> string) list"
  body :: jsobject
  params_id :: string
  currentUser :: "user option"

datatype content = NoContent | Json json | Sent error

record response =
  status :: int
  location :: "string option"
  content :: content

text \<open>
  The options object the course routes pass to \<^verbatim>\<open>Course.findAll\<close> and
  \<^verbatim>\<open>Course.findByPk\<close>: the course columns, and the columns of the included
  \<^verbatim>\<open>User\<close>.
\<close>

record query =
  attributes :: "string list"
  include_User :: "string list"

section \<open>Collaborators and their observable calls\<close>

text \<open>
  Everything the route code calls but does not define is a parameter: basic-auth,
  express-validator, bcryptjs and the Sequelize model methods. A call that can throw
  (or reject) returns \<open>Inl\<close> of the error.
\<close>

record ports =
  auth :: "request \<Rightarrow> credentials option"
  validationResult :: "request \<Rightarrow> string list"
  compareSync :: "string \<Rightarrow> string \<Rightarrow> error + bool"
  hashSync :: "json option \<Rightarrow> error + string"
  User_findOne :: "string \<Rightarrow> error + user option"
  User_create :: "jsobject \<Rightarrow> error + unit"
  Course_findAll :: "query \<Rightarrow> error + json"
  Course_findByPk_including :: "string \<Rightarrow> query \<Rightarrow> error + json option"
  Course_findByPk :: "string \<Rightarrow> error + course option"
  Course_create :: "jsobject \<Rightarrow> error + course"
  course_update :: "course \<Rightarrow> jsobject \<Rightarrow> error + unit"
  course_destroy :: "course \<Rightarrow> error + unit"

text \<open>
  The calls a request makes, in order: the console lines and every call to a collaborator
  with its arguments.
\<close>

datatype event =
    Info string
  | Warn string
  | FindOne string
  | CompareSync string string
  | HashSync "json option"
  | UserCreate jsobject
  | FindAll query
  | FindByPkIncluding string query
  | FindByPk string
  | CourseCreate jsobject
  | CourseUpdate course jsobject
  | CourseDestroy course

text \<open>
  A middleware or handler ends in one of three ways: it calls \<^verbatim>\<open>next()\<close> (with the
  request as it left it), it sends a response, or it throws (its promise rejects).
\<close>

datatype result = Next request | Responded response | Raised error

section \<open>The authentication middleware\<close>

text \<open>
  \<^verbatim>\<open>authenticateUser\<close>, defined with the same text in \<^verbatim>\<open>routes/user.js\<close> and
  \<^verbatim>\<open>routes/course.js\<close>. The variable \<^verbatim>\<open>message\<close> starts as \<^verbatim>\<open>null\<close>; the final
  \<^verbatim>\<open>if (message)\<close> is JavaScript truthiness: neither \<^verbatim>\<open>null\<close> nor the empty
  string.
\<close>

definition generic_message :: string where
  "generic_message = ''Failed or no authentication, please authenticate first.''"

definition unauthorized :: response where
  "unauthorized =
     \<lparr>status = 401, location = None,
      content = Json (JObj [(''message'', JStr generic_message)])\<rparr>"

definition auth_finish :: "request \<Rightarrow> string option \<Rightarrow> event list \<Rightarrow> result \<times> event list" where
  "auth_finish req message t =
     (case message of
        None \<Rightarrow> (Next req, t)
      | Some m \<Rightarrow>
          if m \<noteq> [] then (Responded unauthorized, t @ [Warn m])
          else (Next req, t))"

definition authenticateUser :: "ports \<Rightarrow> request \<Rightarrow> result \<times> event list" where
  "authenticateUser P req =
     (case auth P req of
        None \<Rightarrow> auth_finish req (Some ''AUTH Header not found.'') []
      | Some credentials \<Rightarrow>
          (case User_findOne P (name credentials) of
             Inl e \<Rightarrow> (Raised e, [FindOne (name credentials)])
           | Inr None \<Rightarrow>
               auth_finish req
                 (Some (''User '' @ name credentials @ '' is not found...''))
                 [FindOne (name credentials)]
           | Inr (Some user) \<Rightarrow>
               (case compareSync P (pass credentials) (password user) of
                  Inl e \<Rightarrow>
                    (Raised e,
                     [FindOne (name credentials),
                      CompareSync (pass credentials) (password user)])
                | Inr authenticated \<Rightarrow>
                    if authenticated then
                      auth_finish (req\<lparr>currentUser := Some user\<rparr>) None
                        [FindOne (name credentials),
                         CompareSync (pass credentials) (password user),
                         Info (''Authentication is successful for user: ''
                               @ emailAddress user)]
                    else
                      auth_finish req
                        (Some (''User '' @ emailAddress user @ '' is not authenticated.''))
                        [FindOne (name credentials),
                         CompareSync (pass credentials) (password user)])))"

text \<open>
  \<^verbatim>\<open>asyncHandler(cb)\<close>: whatever the wrapped handler throws is answered with
  status 500 and the error as the body.
\<close>

definition asyncHandler ::
  "(ports \<Rightarrow> request \<Rightarrow> result \<times> event list) \<Rightarrow> ports \<Rightarrow> request \<Rightarrow> result \<times> event list" where
  "asyncHandler cb P req =
     (case cb P req of
        (Raised e, t) \<Rightarrow> (Responded \<lparr>status = 500, location = None, content = Sent e\<rparr>, t)
      | (r, t) \<Rightarrow> (r, t))"

text \<open>
  Express runs the middlewares of a route in order: the handler runs only when
  \<^verbatim>\<open>authenticateUser\<close> has called \<^verbatim>\<open>next()\<close>, on the request it left.
\<close>

definition after_auth ::
  "(ports \<Rightarrow> request \<Rightarrow> result \<times> event list) \<Rightarrow> ports \<Rightarrow> request \<Rightarrow> result \<times> event list" where
  "after_auth h P req =
     (case authenticateUser P req of
        (Next req', t) \<Rightarrow> (case h P req' of (r, t') \<Rightarrow> (r, t @ t'))
      | (r, t) \<Rightarrow> (r, t))"

section \<open>The route handlers\<close>

text \<open>How a template literal prints an integer: in decimal, with a minus sign.\<close>

fun digits :: "nat \<Rightarrow> string" where
  "digits n =
     (if n < 10 then [''0123456789'' ! n]
      else digits (n div 10) @ [''0123456789'' ! (n mod 10)])"

definition number_string :: "int \<Rightarrow> string" where
  "number_string i = (if i < 0 then ''-'' @ digits (nat (- i)) else digits (nat i))"

text \<open>
  Reading a property of \<^verbatim>\<open>req.currentUser\<close> when no user was attached throws a
  \<^verbatim>\<open>TypeError\<close>.
\<close>

definition TypeError :: error where
  "TypeError = Error ''TypeError''"

definition validation_failed :: "string list \<Rightarrow> response" where
  "validation_failed errorMessages =
     \<lparr>status = 400, location = None,
      content = Json (JObj [(''errors'', JArr (map JStr errorMessages))])\<rparr>"

definition json_message :: "int \<Rightarrow> string \<Rightarrow> response" where
  "json_message code m =
     \<lparr>status = code, location = None, content = Json (JObj [(''message'', JStr m)])\<rparr>"

text \<open>\<^verbatim>\<open>GET /api/users\<close> (routes/user.js).\<close>

definition get_users :: "ports \<Rightarrow> request \<Rightarrow> result \<times> event list" where
  "get_users P req =
     (case currentUser req of
        None \<Rightarrow> (Raised TypeError, [])
      | Some user \<Rightarrow>
          (Responded
             \<lparr>status = 200, location = None,
              content = Json (JObj
                [(''id'', JNum (user_id user)),
                 (''firstName'', JStr (firstName user)),
                 (''lastName'', JStr (lastName user)),
                 (''emailAddress'', JStr (emailAddress user))])\<rparr>, []))"

text \<open>
  \<^verbatim>\<open>POST /api/users\<close> (routes/user.js). The \<^verbatim>\<open>catch\<close> of the handler answers a
  unique-constraint error with 422 and throws every other error again.
\<close>

definition post_users_catch :: "error \<Rightarrow> event list \<Rightarrow> result \<times> event list" where
  "post_users_catch e t =
     (if error_name e = ''SequelizeUniqueConstraintError''
      then (Responded (json_message 422 ''Hmm, this email is already taken!''), t)
      else (Raised e, t))"

definition post_users :: "ports \<Rightarrow> request \<Rightarrow> result \<times> event list" where
  "post_users P req =
     (let errorMessages = validationResult P req in
      if errorMessages \<noteq> [] then (Responded (validation_failed errorMessages), [])
      else
        (case hashSync P (map_of (body req) ''password'') of
           Inl e \<Rightarrow> post_users_catch e [HashSync (map_of (body req) ''password'')]
         | Inr h \<Rightarrow>
             (let user = AList.update ''password'' (JStr h) (body req) in
              case User_create P user of
                Inl e \<Rightarrow>
                  post_users_catch e
                    [HashSync (map_of (body req) ''password''), UserCreate user]
              | Inr _ \<Rightarrow>
                  (Responded \<lparr>status = 201, location = Some ''/'', content = NoContent\<rparr>,
                   [HashSync (map_of (body req) ''password''), UserCreate user]))))"

text \<open>The query both course reading routes send (routes/course.js).\<close>

definition course_query :: query where
  "course_query =
     \<lparr>attributes =
        [''id'', ''title'', ''description'', ''estimatedTime'', ''materialsNeeded'', ''userId''],
      include_User = [''id'', ''firstName'', ''lastName'', ''emailAddress'']\<rparr>"

text \<open>\<^verbatim>\<open>GET /api/courses\<close>.\<close>

definition get_courses :: "ports \<Rightarrow> request \<Rightarrow> result \<times> event list" where
  "get_courses P req =
     (case Course_findAll P course_query of
        Inl e \<Rightarrow> (Raised e, [FindAll course_query])
      | Inr courses \<Rightarrow>
          (Responded \<lparr>status = 200, location = None, content = Json courses\<rparr>,
           [FindAll course_query]))"

text \<open>\<^verbatim>\<open>GET /api/courses/:id\<close>.\<close>

definition get_course :: "ports \<Rightarrow> request \<Rightarrow> result \<times> event list" where
  "get_course P req =
     (case Course_findByPk_including P (params_id req) course_query of
        Inl e \<Rightarrow> (Raised e, [FindByPkIncluding (params_id req) course_query])
      | Inr (Some course) \<Rightarrow>
          (Responded \<lparr>status = 200, location = None, content = Json course\<rparr>,
           [FindByPkIncluding (params_id req) course_query])
      | Inr None \<Rightarrow>
          (Responded (json_message 404 ''Oops! The course could not be located.''),
           [FindByPkIncluding (params_id req) course_query]))"

text \<open>\<^verbatim>\<open>POST /api/courses\<close>.\<close>

definition post_courses :: "ports \<Rightarrow> request \<Rightarrow> result \<times> event list" where
  "post_courses P req =
     (let errorMessages = validationResult P req in
      if errorMessages \<noteq> [] then (Responded (validation_failed errorMessages), [])
      else
        (case Course_create P (body req) of
           Inl e \<Rightarrow> (Raised e, [CourseCreate (body req)])
         | Inr course \<Rightarrow>
             (Responded
                \<lparr>status = 201,
                 location = Some (''/courses/'' @ number_string (course_id course)),
                 content = NoContent\<rparr>,
              [CourseCreate (body req)])))"

text \<open>\<^verbatim>\<open>PUT /api/courses/:id\<close>.\<close>

definition put_course :: "ports \<Rightarrow> request \<Rightarrow> result \<times> event list" where
  "put_course P req =
     (let errorMessages = validationResult P req in
      if errorMessages \<noteq> [] then (Responded (validation_failed errorMessages), [])
      else
        (case Course_findByPk P (params_id req) of
           Inl e \<Rightarrow> (Raised e, [FindByPk (params_id req)])
         | Inr (Some course) \<Rightarrow>
             (case currentUser req of
                None \<Rightarrow> (Raised TypeError, [FindByPk (params_id req)])
              | Some user \<Rightarrow>
                  if userId course = user_id user then
                    (case course_update P course (body req) of
                       Inl e \<Rightarrow>
                         (Raised e,
                          [FindByPk (params_id req), CourseUpdate course (body req)])
                     | Inr _ \<Rightarrow>
                         (Responded \<lparr>status = 204, location = None, content = NoContent\<rparr>,
                          [FindByPk (params_id req), CourseUpdate course (body req)]))
                  else
                    (Responded
                       (json_message 403
                          ''Please make sure you are trying to edit your own course.''),
                     [FindByPk (params_id req)]))
         | Inr None \<Rightarrow>
             (Responded
                (json_message 404
                   ''Please double check that this course exists in the database.''),
              [FindByPk (params_id req)])))"

text \<open>\<^verbatim>\<open>DELETE /api/courses/:id\<close>.\<close>

definition delete_course :: "ports \<Rightarrow> request \<Rightarrow> result \<times> event list" where
  "delete_course P req =
     (case Course_findByPk P (params_id req) of
        Inl e \<Rightarrow> (Raised e, [FindByPk (params_id req)])
      | Inr (Some course) \<Rightarrow>
          (case currentUser req of
             None \<Rightarrow> (Raised TypeError, [FindByPk (params_id req)])
           | Some user \<Rightarrow>
               if userId course = user_id user then
                 (case course_destroy P course of
                    Inl e \<Rightarrow>
                      (Raised e, [FindByPk (params_id req), CourseDestroy course])
                  | Inr _ \<Rightarrow>
                      (Responded \<lparr>status = 204, location = None, content = NoContent\<rparr>,
                       [FindByPk (params_id req), CourseDestroy course]))
               else
                 (Responded
                    (json_message 403
                       ''Please make sure you are trying to modify your own course.''),
                  [FindByPk (params_id req)]))
      | Inr None \<Rightarrow>
          (Responded
             (json_message 404
                ''Please double check that this course exists in the database.''),
           [FindByPk (params_id req)]))"

text \<open>The seven routes the two routers register, with their middleware chains.\<close>

datatype route =
  GET_users | POST_users | GET_courses | GET_course | POST_courses | PUT_course
  | DELETE_course

fun router :: "route \<Rightarrow> ports \<Rightarrow> request \<Rightarrow> result \<times> event list" where
  "router GET_users = after_auth (asyncHandler get_users)"
| "router POST_users = asyncHandler post_users"
| "router GET_courses = asyncHandler get_courses"
| "router GET_course = asyncHandler get_course"
| "router POST_courses = after_auth (asyncHandler post_courses)"
| "router PUT_course = after_auth (asyncHandler put_course)"
| "router DELETE_course = after_auth (asyncHandler delete_course)"

text \<open>The calls that change the stored courses or users.\<close>

fun mutation :: "event \<Rightarrow> bool" where
  "mutation (UserCreate _) = True"
| "mutation (CourseCreate _) = True"
| "mutation (CourseUpdate _ _) = True"
| "mutation (CourseDestroy _) = True"
| "mutation _ = False"

section \<open>An in-memory reading of the Sequelize queries\<close>

text \<open>
  The reading queries of the routes are decided by the \<^verbatim>\<open>attributes\<close> lists the
  routes pass, so they are also given over a concrete store: a query returns, for each row,
  the listed columns that the model has (models/user.js, models/course.js), and under
  \<^verbatim>\<open>User\<close> the listed columns of the user the course belongs to. The primary key in
  the URL is a string and is compared with the printed key.
\<close>

record db =
  users :: "user list"
  courses :: "course list"

definition user_column :: "user \<Rightarrow> string \<Rightarrow> json option" where
  "user_column u k =
     (if k = ''id'' then Some (JNum (user_id u))
      else if k = ''firstName'' then Some (JStr (firstName u))
      else if k = ''lastName'' then Some (JStr (lastName u))
      else if k = ''emailAddress'' then Some (JStr (emailAddress u))
      else if k = ''password'' then Some (JStr (password u))
      else None)"

definition nullable :: "string option \<Rightarrow> json" where
  "nullable v = (case v of None \<Rightarrow> JNull | Some s \<Rightarrow> JStr s)"

definition course_column :: "course \<Rightarrow> string \<Rightarrow> json option" where
  "course_column c k =
     (if k = ''id'' then Some (JNum (course_id c))
      else if k = ''title'' then Some (JStr (title c))
      else if k = ''description'' then Some (JStr (description c))
      else if k = ''estimatedTime'' then Some (nullable (estimatedTime c))
      else if k = ''materialsNeeded'' then Some (nullable (materialsNeeded c))
      else if k = ''userId'' then Some (JNum (userId c))
      else None)"

definition select_columns :: "('r \<Rightarrow> string \<Rightarrow> json option) \<Rightarrow> string list \<Rightarrow> 'r \<Rightarrow> jsobject" where
  "select_columns col attrs r = List.map_filter (\<lambda>k. map_option (Pair k) (col r k)) attrs"

definition included_row :: "db \<Rightarrow> query \<Rightarrow> course \<Rightarrow> json" where
  "included_row d q c =
     JObj (select_columns course_column (attributes q) c @
       [(''User'',
         (case find (\<lambda>u. user_id u = userId c) (users d) of
            None \<Rightarrow> JNull
          | Some u \<Rightarrow> JObj (select_columns user_column (include_User q) u)))])"

definition sequelize_reads :: "db \<Rightarrow> ports \<Rightarrow> ports" where
  "sequelize_reads d P =
     P\<lparr>User_findOne := \<lambda>e. Inr (find (\<lambda>u. emailAddress u = e) (users d)),
       Course_findAll := \<lambda>q. Inr (JArr (map (included_row d q) (courses d))),
       Course_findByPk_including :=
         \<lambda>i q. Inr (map_option (included_row d q)
                      (find (\<lambda>c. number_string (course_id c) = i) (courses d))),
       Course_findByPk :=
         \<lambda>i. Inr (find (\<lambda>c. number_string (course_id c) = i) (courses d))\<rparr>"

definition forget_password :: "user \<Rightarrow> user" where
  "forget_password u = u\<lparr>password := []\<rparr>"

section \<open>A small installation to run the routes on\<close>

text \<open>
  Two users and two courses, and stand-ins for the libraries: the header is read as
  \<^verbatim>\<open>name:pass\<close> without the Base64 layer, a hash is the secret behind a fixed prefix,
  and creating a course takes \<^verbatim>\<open>title\<close>, \<^verbatim>\<open>description\<close> and \<^verbatim>\<open>userId\<close> from the
  body as the model declares them (none of the three may be null).
\<close>

definition alice :: user where
  "alice = \<lparr>user_id = 1, firstName = ''Alice'', lastName = ''A'',
            emailAddress = ''alice@example.com'', password = ''hashed:correct-secret''\<rparr>"

definition bob :: user where
  "bob = \<lparr>user_id = 2, firstName = ''Bob'', lastName = ''B'',
          emailAddress = ''bob@example.com'', password = ''hashed:bobs-secret''\<rparr>"

definition course_of_alice :: course where
  "course_of_alice = \<lparr>course_id = 1, title = ''Logic'', description = ''HOL'',
                      estimatedTime = None, materialsNeeded = None, userId = 1\<rparr>"

definition course_of_bob :: course where
  "course_of_bob = \<lparr>course_id = 2, title = ''Types'', description = ''Lambda'',
                    estimatedTime = Some ''2 hours'', materialsNeeded = None, userId = 2\<rparr>"

definition demo_db :: db where
  "demo_db = \<lparr>users = [alice, bob], courses = [course_of_alice, course_of_bob]\<rparr>"

definition demo_auth :: "request \<Rightarrow> credentials option" where
  "demo_auth req =
     (case map_of (headers req) ''authorization'' of
        None \<Rightarrow> None
      | Some h \<Rightarrow>
          if CHR '':'' \<in> set h
          then Some \<lparr>name = takeWhile (\<lambda>c. c \<noteq> CHR '':'') h,
                     pass = drop 1 (dropWhile (\<lambda>c. c \<noteq> CHR '':'') h)\<rparr>
          else None)"

definition demo_hash :: "json option \<Rightarrow> error + string" where
  "demo_hash v = (case v of Some (JStr s) \<Rightarrow> Inr (''hashed:'' @ s) | _ \<Rightarrow> Inl (Error ''Error''))"

definition demo_create :: "jsobject \<Rightarrow> error + course" where
  "demo_create b =
     (case (map_of b ''title'', map_of b ''description'', map_of b ''userId'') of
        (Some (JStr t), Some (JStr d), Some (JNum owner)) \<Rightarrow>
          Inr \<lparr>course_id = 3, title = t, description = d, estimatedTime = None,
               materialsNeeded = None, userId = owner\<rparr>
      | _ \<Rightarrow> Inl (Error ''SequelizeValidationError''))"

definition demo :: ports where
  "demo = sequelize_reads demo_db
     \<lparr>auth = demo_auth,
      validationResult = (\<lambda>req. []),
      compareSync = (\<lambda>s h. Inr (h = ''hashed:'' @ s)),
      hashSync = demo_hash,
      User_findOne = (\<lambda>e. Inr None),
      User_create = (\<lambda>u. Inr ()),
      Course_findAll = (\<lambda>q. Inr JNull),
      Course_findByPk_including = (\<lambda>i q. Inr None),
      Course_findByPk = (\<lambda>i. Inr None),
      Course_create = demo_create,
      course_update = (\<lambda>c b. Inr ()),
      course_destroy = (\<lambda>c. Inr ())\<rparr>"

definition request_of :: "string option \<Rightarrow> string \<Rightarrow> jsobject \<Rightarrow> request" where
  "request_of header key b =
     \<lparr>headers = (case header of None \<Rightarrow> [] | Some h \<Rightarrow> [(''authorization'', h)]),
      body = b, params_id = key, currentUser = None\<rparr>"

definition unavailable :: error where
  "unavailable = Error ''SequelizeConnectionError''"

text \<open>The routes whose middleware chain contains \<^verbatim>\<open>authenticateUser\<close>.\<close>

fun gated :: "route \<Rightarrow> bool" where
  "gated POST_users = False"
| "gated GET_courses = False"
| "gated GET_course = False"
| "gated _ = True"

text \<open>The error a recorded call ends with, when the collaborator throws on it.\<close>

definition thrown :: "error + 'a \<Rightarrow> error option" where
  "thrown r = (case r of Inl e \<Rightarrow> Some e | Inr _ \<Rightarrow> None)"

fun fault_of :: "ports \<Rightarrow> event \<Rightarrow> error option" where
  "fault_of P (FindOne i) = thrown (User_findOne P i)"
| "fault_of P (CompareSync s h) = thrown (compareSync P s h)"
| "fault_of P (HashSync v) = thrown (hashSync P v)"
| "fault_of P (UserCreate u) = thrown (User_create P u)"
| "fault_of P (FindAll q) = thrown (Course_findAll P q)"
| "fault_of P (FindByPkIncluding i q) = thrown (Course_findByPk_including P i q)"
| "fault_of P (FindByPk i) = thrown (Course_findByPk P i)"
| "fault_of P (CourseCreate b) = thrown (Course_create P b)"
| "fault_of P (CourseUpdate c b) = thrown (course_update P c b)"
| "fault_of P (CourseDestroy c) = thrown (course_destroy P c)"
| "fault_of P (Info m) = None"
| "fault_of P (Warn m) = None"

text \<open>
  The installation with the validator of the course routes reporting a missing title
  (the message of \<^verbatim>\<open>check('title')\<close> in routes/course.js, with its double quotes).
\<close>

definition title_missing :: string where
  "title_missing = CHR 0x22 # ''title'' @ CHR 0x22 # '' needs a value!''"

definition demo_checked :: ports where
  "demo_checked =
     demo\<lparr>validationResult :=
            \<lambda>req. if map_of (body req) ''title'' = None then [title_missing] else []\<rparr>"

text \<open>
  The same installation after the password of the first user was hashed again with
  another salt, and a comparison that accepts both encodings.
\<close>

definition resalted_db :: db where
  "resalted_db =
     \<lparr>users = [alice\<lparr>password := ''salted:correct-secret''\<rparr>, bob],
      courses = [course_of_alice, course_of_bob]\<rparr>"

definition demo_salted :: ports where
  "demo_salted =
     demo\<lparr>compareSync := \<lambda>s h. Inr (h = ''hashed:'' @ s \<or> h = ''salted:'' @ s)\<rparr>"

section \<open>Running the installation\<close>

lemmas run =
  after_auth_def asyncHandler_def authenticateUser_def auth_finish_def demo_def
  sequelize_reads_def demo_auth_def request_of_def demo_db_def alice_def bob_def
  course_of_alice_def course_of_bob_def number_string_def unauthorized_def
  put_course_def delete_course_def post_courses_def get_users_def post_users_def
  get_courses_def get_course_def json_message_def validation_failed_def demo_create_def
  demo_hash_def post_users_catch_def

section \<open>What the authentication middleware does\<close>

lemma auth_finish_Some [simp]:
  "auth_finish req (Some (a # m)) t = (Responded unauthorized, t @ [Warn (a # m)])"
  by (simp add: auth_finish_def)

lemma auth_finish_None [simp]: "auth_finish req None t = (Next req, t)"
  by (simp add: auth_finish_def)

lemma gate_Next:
  assumes "authenticateUser P req = (Next req', t)"
  shows "\<exists>c u. auth P req = Some c \<and> User_findOne P (name c) = Inr (Some u)
           \<and> compareSync P (pass c) (password u) = Inr True
           \<and> req' = req\<lparr>currentUser := Some u\<rparr>
           \<and> t = [FindOne (name c), CompareSync (pass c) (password u),
                  Info (''Authentication is successful for user: '' @ emailAddress u)]"
  using assms
  by (auto simp: authenticateUser_def split: option.splits sum.splits if_splits)

lemma gate_Responded:
  assumes "authenticateUser P req = (Responded r, t)"
  shows "r = unauthorized \<and>
         ((auth P req = None \<and> t = [Warn ''AUTH Header not found.''])
          \<or> (\<exists>c. auth P req = Some c \<and> User_findOne P (name c) = Inr None
                \<and> t = [FindOne (name c), Warn (''User '' @ name c @ '' is not found...'')])
          \<or> (\<exists>c u. auth P req = Some c \<and> User_findOne P (name c) = Inr (Some u)
                \<and> compareSync P (pass c) (password u) = Inr False
                \<and> t = [FindOne (name c), CompareSync (pass c) (password u),
                       Warn (''User '' @ emailAddress u @ '' is not authenticated.'')]))"
  using assms
  by (auto simp: authenticateUser_def split: option.splits sum.splits if_splits)

lemma gate_Raised:
  assumes "authenticateUser P req = (Raised e, t)"
  shows "\<exists>c. auth P req = Some c \<and>
          ((User_findOne P (name c) = Inl e \<and> t = [FindOne (name c)])
           \<or> (\<exists>u. User_findOne P (name c) = Inr (Some u)
                 \<and> compareSync P (pass c) (password u) = Inl e
                 \<and> t = [FindOne (name c), CompareSync (pass c) (password u)]))"
  using assms
  by (auto simp: authenticateUser_def split: option.splits sum.splits if_splits)

lemma gate_no_mutation: "filter mutation (snd (authenticateUser P req)) = []"
  by (auto simp: authenticateUser_def split: option.splits sum.splits if_splits)

lemma after_auth_Responded:
  "authenticateUser P req = (Responded r, t) \<Longrightarrow> after_auth h P req = (Responded r, t)"
  by (simp add: after_auth_def)

lemma after_auth_Raised:
  "authenticateUser P req = (Raised e, t) \<Longrightarrow> after_auth h P req = (Raised e, t)"
  by (simp add: after_auth_def)

lemma after_auth_Next:
  "authenticateUser P req = (Next req', t) \<Longrightarrow>
   after_auth h P req = (fst (h P req'), t @ snd (h P req'))"
  by (simp add: after_auth_def split: prod.splits)

lemma router_gated:
  "gated rt \<Longrightarrow> \<exists>h. router rt = after_auth (asyncHandler h)"
  by (cases rt) auto

lemma not_in_generic:
  "CHR ''A'' \<in> set m \<or> CHR ''U'' \<in> set m \<Longrightarrow> \<not> sublist m generic_message"
proof
  assume a: "CHR ''A'' \<in> set m \<or> CHR ''U'' \<in> set m" and s: "sublist m generic_message"
  from s have "set m \<subseteq> set generic_message" by (rule set_mono_sublist)
  with a show False by (auto simp: generic_message_def)
qed

section \<open>The claims\<close>

text \<open>
  Claim C1. Every request that fails authentication is answered by the middleware with
  status 401 and one fixed JSON message. A missing and a malformed header are both
  \<^verbatim>\<open>auth(req)\<close> returning nothing; an unknown identifier is \<^verbatim>\<open>User.findOne\<close>
  returning nothing; a wrong secret is \<^verbatim>\<open>compareSync\<close> returning false. The internal
  reason only goes to the console (the last recorded call is the warning), and it is not a
  part of the message sent. Every route behind the middleware answers the same way.
\<close>

theorem rejections_share_one_answer:
  "(auth P req = None \<longrightarrow> fst (authenticateUser P req) = Responded unauthorized)
   \<and> (\<forall>c. auth P req = Some c \<longrightarrow> User_findOne P (name c) = Inr None \<longrightarrow>
          fst (authenticateUser P req) = Responded unauthorized)
   \<and> (\<forall>c u. auth P req = Some c \<longrightarrow> User_findOne P (name c) = Inr (Some u) \<longrightarrow>
          compareSync P (pass c) (password u) = Inr False \<longrightarrow>
          fst (authenticateUser P req) = Responded unauthorized)
   \<and> (\<forall>r t. authenticateUser P req = (Responded r, t) \<longrightarrow>
          r = unauthorized \<and> status r = 401
          \<and> content r = Json (JObj [(''message'', JStr generic_message)])
          \<and> (\<exists>t' m. t = t' @ [Warn m] \<and> \<not> sublist m generic_message)
          \<and> (\<forall>rt. gated rt \<longrightarrow> router rt P req = (Responded unauthorized, t)))"
proof (intro conjI allI impI)
  fix r t assume a: "authenticateUser P req = (Responded r, t)"
  from gate_Responded [OF a] show "r = unauthorized" by simp
  then show "status r = 401" "content r = Json (JObj [(''message'', JStr generic_message)])"
    by (simp_all add: unauthorized_def)
  from gate_Responded [OF a] show "\<exists>t' m. t = t' @ [Warn m] \<and> \<not> sublist m generic_message"
  proof (elim conjE disjE exE)
    assume "t = [Warn ''AUTH Header not found.'']"
    then have "t = [] @ [Warn ''AUTH Header not found.'']
       \<and> \<not> sublist ''AUTH Header not found.'' generic_message"
      by (simp add: not_in_generic)
    then show ?thesis by blast
  next
    fix c assume "t = [FindOne (name c), Warn (''User '' @ name c @ '' is not found...'')]"
    then have "t = [FindOne (name c)] @ [Warn (''User '' @ name c @ '' is not found...'')]
       \<and> \<not> sublist (''User '' @ name c @ '' is not found...'') generic_message"
      by (simp add: not_in_generic)
    then show ?thesis by blast
  next
    fix c u assume "t = [FindOne (name c), CompareSync (pass c) (password u),
                       Warn (''User '' @ emailAddress u @ '' is not authenticated.'')]"
    then have "t = [FindOne (name c), CompareSync (pass c) (password u)] @
                    [Warn (''User '' @ emailAddress u @ '' is not authenticated.'')]
       \<and> \<not> sublist (''User '' @ emailAddress u @ '' is not authenticated.'') generic_message"
      by (simp add: not_in_generic)
    then show ?thesis by blast
  qed
  fix rt assume "gated rt"
  then obtain h where "router rt = after_auth (asyncHandler h)" using router_gated by blast
  with a \<open>r = unauthorized\<close> show "router rt P req = (Responded unauthorized, t)"
    by (simp add: after_auth_Responded)
qed (auto simp: authenticateUser_def)

theorem rejections_share_one_answer_witness:
  "auth demo (request_of None ''1'' []) = None
   \<and> auth demo (request_of (Some ''alice'') ''1'' []) = None
   \<and> auth demo (request_of (Some ''carol@example.com:x'') ''1'' [])
       = Some \<lparr>name = ''carol@example.com'', pass = ''x''\<rparr>
   \<and> User_findOne demo ''carol@example.com'' = Inr None
   \<and> auth demo (request_of (Some ''alice@example.com:wrong-secret'') ''1'' [])
       = Some \<lparr>name = ''alice@example.com'', pass = ''wrong-secret''\<rparr>
   \<and> User_findOne demo ''alice@example.com'' = Inr (Some alice)
   \<and> compareSync demo ''wrong-secret'' (password alice) = Inr False
   \<and> fst (authenticateUser demo (request_of None ''1'' [])) = Responded unauthorized
   \<and> fst (authenticateUser demo (request_of (Some ''alice'') ''1'' [])) = Responded unauthorized
   \<and> fst (authenticateUser demo (request_of (Some ''carol@example.com:x'') ''1'' []))
       = Responded unauthorized
   \<and> fst (authenticateUser demo (request_of (Some ''alice@example.com:wrong-secret'') ''1'' []))
       = Responded unauthorized
   \<and> router DELETE_course demo (request_of (Some ''alice@example.com:wrong-secret'') ''1'' [])
       = (Responded unauthorized,
          [FindOne ''alice@example.com'',
           CompareSync ''wrong-secret'' ''hashed:correct-secret'',
           Warn ''User alice@example.com is not authenticated.''])"
proof -
  have a1: "auth demo (request_of None ''1'' []) = None"
    and a2: "auth demo (request_of (Some ''alice'') ''1'' []) = None"
    and a3: "auth demo (request_of (Some ''carol@example.com:x'') ''1'' [])
       = Some \<lparr>name = ''carol@example.com'', pass = ''x''\<rparr>"
    and a4: "auth demo (request_of (Some ''alice@example.com:wrong-secret'') ''1'' [])
       = Some \<lparr>name = ''alice@example.com'', pass = ''wrong-secret''\<rparr>"
    by (simp_all add: run)
  have f3: "User_findOne demo ''carol@example.com'' = Inr None"
    and f4: "User_findOne demo ''alice@example.com'' = Inr (Some alice)"
    and c4: "compareSync demo ''wrong-secret'' (password alice) = Inr False"
    by (simp_all add: run)
  have g: "authenticateUser demo (request_of (Some ''alice@example.com:wrong-secret'') ''1'' [])
       = (Responded unauthorized,
          [FindOne ''alice@example.com'',
           CompareSync ''wrong-secret'' ''hashed:correct-secret'',
           Warn ''User alice@example.com is not authenticated.''])"
    by (simp add: run)
  note t1 = rejections_share_one_answer [of demo "request_of None ''1'' []"]
  note t2 = rejections_share_one_answer [of demo "request_of (Some ''alice'') ''1'' []"]
  note t3 = rejections_share_one_answer [of demo "request_of (Some ''carol@example.com:x'') ''1'' []"]
  note t4 = rejections_share_one_answer
    [of demo "request_of (Some ''alice@example.com:wrong-secret'') ''1'' []"]
  have r1: "fst (authenticateUser demo (request_of None ''1'' [])) = Responded unauthorized"
    using t1 a1 by blast
  have r2: "fst (authenticateUser demo (request_of (Some ''alice'') ''1'' [])) = Responded unauthorized"
    using t2 a2 by blast
  have r3: "fst (authenticateUser demo (request_of (Some ''carol@example.com:x'') ''1'' []))
       = Responded unauthorized"
    using t3 a3 f3 by simp
  have r4: "fst (authenticateUser demo (request_of (Some ''alice@example.com:wrong-secret'') ''1'' []))
       = Responded unauthorized"
    using t4 a4 f4 c4 by simp
  have r5: "router DELETE_course demo (request_of (Some ''alice@example.com:wrong-secret'') ''1'' [])
       = (Responded unauthorized,
          [FindOne ''alice@example.com'',
           CompareSync ''wrong-secret'' ''hashed:correct-secret'',
           Warn ''User alice@example.com is not authenticated.''])"
  proof -
    have "gated DELETE_course" by simp
    with t4 g show ?thesis by blast
  qed
  show ?thesis using a1 a2 a3 a4 f3 f4 c4 r1 r2 r3 r4 r5 by blast
qed

text \<open>
  Claim C4. A request whose header parses to identifier \<open>i\<close> and secret \<open>s\<close>, where the
  lookup finds a user with that identifier and the stored hash verifies \<open>s\<close>, passes the
  middleware: the user found becomes \<^verbatim>\<open>req.currentUser\<close>, no response is sent, and the
  next handler of the route runs on that request.
\<close>

theorem valid_credentials_pass_the_gate:
  assumes "auth P req = Some \<lparr>name = i, pass = s\<rparr>"
    and "User_findOne P i = Inr (Some u)"
    and "emailAddress u = i"
    and "compareSync P s (password u) = Inr True"
  shows "authenticateUser P req =
           (Next (req\<lparr>currentUser := Some u\<rparr>),
            [FindOne i, CompareSync s (password u),
             Info (''Authentication is successful for user: '' @ i)])
         \<and> map_option emailAddress (currentUser (req\<lparr>currentUser := Some u\<rparr>)) = Some i
         \<and> (\<forall>h. after_auth h P req =
               (fst (h P (req\<lparr>currentUser := Some u\<rparr>)),
                [FindOne i, CompareSync s (password u),
                 Info (''Authentication is successful for user: '' @ i)]
                @ snd (h P (req\<lparr>currentUser := Some u\<rparr>))))"
proof -
  have g: "authenticateUser P req =
           (Next (req\<lparr>currentUser := Some u\<rparr>),
            [FindOne i, CompareSync s (password u),
             Info (''Authentication is successful for user: '' @ i)])"
    using assms by (simp add: authenticateUser_def)
  moreover have "map_option emailAddress (currentUser (req\<lparr>currentUser := Some u\<rparr>)) = Some i"
    using assms(3) by simp
  moreover have "\<forall>h. after_auth h P req =
               (fst (h P (req\<lparr>currentUser := Some u\<rparr>)),
                [FindOne i, CompareSync s (password u),
                 Info (''Authentication is successful for user: '' @ i)]
                @ snd (h P (req\<lparr>currentUser := Some u\<rparr>)))"
    using after_auth_Next [OF g] by blast
  ultimately show ?thesis by blast
qed

theorem valid_credentials_pass_the_gate_witness:
  "auth demo (request_of (Some ''alice@example.com:correct-secret'') ''1'' [])
     = Some \<lparr>name = ''alice@example.com'', pass = ''correct-secret''\<rparr>
   \<and> User_findOne demo ''alice@example.com'' = Inr (Some alice)
   \<and> emailAddress alice = ''alice@example.com''
   \<and> compareSync demo ''correct-secret'' (password alice) = Inr True
   \<and> authenticateUser demo (request_of (Some ''alice@example.com:correct-secret'') ''1'' [])
     = (Next ((request_of (Some ''alice@example.com:correct-secret'') ''1'' [])
               \<lparr>currentUser := Some alice\<rparr>),
        [FindOne ''alice@example.com'',
         CompareSync ''correct-secret'' (password alice),
         Info (''Authentication is successful for user: '' @ ''alice@example.com'')])"
proof -
  have a: "auth demo (request_of (Some ''alice@example.com:correct-secret'') ''1'' [])
     = Some \<lparr>name = ''alice@example.com'', pass = ''correct-secret''\<rparr>"
    and f: "User_findOne demo ''alice@example.com'' = Inr (Some alice)"
    and e: "emailAddress alice = ''alice@example.com''"
    and c: "compareSync demo ''correct-secret'' (password alice) = Inr True"
    by (simp_all add: run)
  from valid_credentials_pass_the_gate [OF a f e c] a f e c show ?thesis by blast
qed

text \<open>
  Claim C5. When \<^verbatim>\<open>auth(req)\<close> returns nothing (the header is absent or malformed), the
  middleware rejects without calling \<^verbatim>\<open>User.findOne\<close>: no such call is recorded, and the
  outcome is the same whatever the lookup would have done.
\<close>

theorem no_lookup_without_credentials:
  assumes "auth P req = None"
  shows "authenticateUser P req = (Responded unauthorized, [Warn ''AUTH Header not found.''])
         \<and> (\<forall>i. FindOne i \<notin> set (snd (authenticateUser P req)))
         \<and> (\<forall>f. authenticateUser (P\<lparr>User_findOne := f\<rparr>) req = authenticateUser P req)
         \<and> (\<forall>rt. gated rt \<longrightarrow>
               router rt P req = (Responded unauthorized, [Warn ''AUTH Header not found.'']))"
proof -
  have g: "authenticateUser P req = (Responded unauthorized, [Warn ''AUTH Header not found.''])"
    using assms by (simp add: authenticateUser_def)
  have "\<forall>f. authenticateUser (P\<lparr>User_findOne := f\<rparr>) req = authenticateUser P req"
    using assms by (simp add: authenticateUser_def)
  moreover have "\<forall>rt. gated rt \<longrightarrow>
      router rt P req = (Responded unauthorized, [Warn ''AUTH Header not found.''])"
  proof (intro allI impI)
    fix rt assume "gated rt"
    then obtain h where "router rt = after_auth (asyncHandler h)" using router_gated by blast
    with g show "router rt P req = (Responded unauthorized, [Warn ''AUTH Header not found.''])"
      by (simp add: after_auth_Responded)
  qed
  moreover have "\<forall>i. FindOne i \<notin> set (snd (authenticateUser P req))"
    using g by simp
  ultimately show ?thesis using g by blast
qed

theorem no_lookup_without_credentials_witness:
  "auth demo (request_of None ''1'' []) = None
   \<and> auth demo (request_of (Some ''no separator'') ''1'' []) = None
   \<and> authenticateUser demo (request_of None ''1'' [])
       = (Responded unauthorized, [Warn ''AUTH Header not found.''])
   \<and> authenticateUser (demo\<lparr>User_findOne := \<lambda>i. Inl unavailable\<rparr>)
         (request_of (Some ''no separator'') ''1'' [])
       = (Responded unauthorized, [Warn ''AUTH Header not found.''])
   \<and> router PUT_course demo (request_of (Some ''no separator'') ''1'' [])
       = (Responded unauthorized, [Warn ''AUTH Header not found.''])"
proof -
  have a1: "auth demo (request_of None ''1'' []) = None"
    and a2: "auth demo (request_of (Some ''no separator'') ''1'' []) = None"
    by (simp_all add: run)
  have p: "gated PUT_course" by simp
  from no_lookup_without_credentials [OF a1] no_lookup_without_credentials [OF a2] a1 a2 p
  show ?thesis by metis
qed

section \<open>What the course routes do behind the middleware\<close>

lemma gate_attaches:
  assumes "authenticateUser P req = (Next req', t)"
  shows "\<exists>u. currentUser req' = Some u \<and> params_id req' = params_id req
           \<and> body req' = body req \<and> filter mutation t = []"
  using gate_Next [OF assms] by auto

lemma put_invalid:
  assumes "validationResult P req' \<noteq> []"
  shows "asyncHandler put_course P req'
           = (Responded (validation_failed (validationResult P req')), [])"
  using assms by (simp add: asyncHandler_def put_course_def Let_def)

lemma put_missing:
  assumes "validationResult P req' = []" and "Course_findByPk P (params_id req') = Inr None"
  shows "asyncHandler put_course P req'
           = (Responded (json_message 404
                ''Please double check that this course exists in the database.''),
              [FindByPk (params_id req')])"
  using assms by (simp add: asyncHandler_def put_course_def)

lemma delete_missing:
  assumes "Course_findByPk P (params_id req') = Inr None"
  shows "asyncHandler delete_course P req'
           = (Responded (json_message 404
                ''Please double check that this course exists in the database.''),
              [FindByPk (params_id req')])"
  using assms by (simp add: asyncHandler_def delete_course_def)

lemma put_found:
  assumes "validationResult P req' = []"
    and "Course_findByPk P (params_id req') = Inr (Some c)"
    and "currentUser req' = Some u"
  shows "asyncHandler put_course P req' =
           (if userId c = user_id u then
              (case course_update P c (body req') of
                 Inl e \<Rightarrow> Responded \<lparr>status = 500, location = None, content = Sent e\<rparr>
               | Inr _ \<Rightarrow> Responded \<lparr>status = 204, location = None, content = NoContent\<rparr>,
               [FindByPk (params_id req'), CourseUpdate c (body req')])
            else
              (Responded (json_message 403
                 ''Please make sure you are trying to edit your own course.''),
               [FindByPk (params_id req')]))"
  using assms by (simp add: asyncHandler_def put_course_def split: sum.splits)

lemma delete_found:
  assumes "Course_findByPk P (params_id req') = Inr (Some c)"
    and "currentUser req' = Some u"
  shows "asyncHandler delete_course P req' =
           (if userId c = user_id u then
              (case course_destroy P c of
                 Inl e \<Rightarrow> Responded \<lparr>status = 500, location = None, content = Sent e\<rparr>
               | Inr _ \<Rightarrow> Responded \<lparr>status = 204, location = None, content = NoContent\<rparr>,
               [FindByPk (params_id req'), CourseDestroy c])
            else
              (Responded (json_message 403
                 ''Please make sure you are trying to modify your own course.''),
               [FindByPk (params_id req')]))"
  using assms by (simp add: asyncHandler_def delete_course_def split: sum.splits)

lemma route_behind_gate:
  assumes "authenticateUser P req = (Next req', t)"
  shows "router PUT_course P req
           = (fst (asyncHandler put_course P req'), t @ snd (asyncHandler put_course P req'))"
    and "router DELETE_course P req
           = (fst (asyncHandler delete_course P req'), t @ snd (asyncHandler delete_course P req'))"
    and "router POST_courses P req
           = (fst (asyncHandler post_courses P req'), t @ snd (asyncHandler post_courses P req'))"
    and "router GET_users P req
           = (fst (asyncHandler get_users P req'), t @ snd (asyncHandler get_users P req'))"
  using assms by (simp_all add: after_auth_Next)

text \<open>
  Claim C10, as the code has it. For an authenticated request whose key names no course,
  \<^verbatim>\<open>DELETE\<close> answers 404 with a not-found message, and so does a \<^verbatim>\<open>PUT\<close> whose body
  passed validation; a \<^verbatim>\<open>PUT\<close> whose body failed validation is answered with 400 and the
  validation messages before the course is looked up. In all three cases no call that
  creates, updates or destroys a course is made.
\<close>

theorem missing_course_leaves_store_alone:
  assumes "authenticateUser P req = (Next req', t)"
    and "Course_findByPk P (params_id req) = Inr None"
  shows "router DELETE_course P req
           = (Responded (json_message 404
                ''Please double check that this course exists in the database.''),
              t @ [FindByPk (params_id req)])
         \<and> (validationResult P req' = [] \<longrightarrow>
              router PUT_course P req
                = (Responded (json_message 404
                     ''Please double check that this course exists in the database.''),
                   t @ [FindByPk (params_id req)]))
         \<and> (validationResult P req' \<noteq> [] \<longrightarrow>
              router PUT_course P req
                = (Responded (validation_failed (validationResult P req')), t))
         \<and> filter mutation (snd (router DELETE_course P req)) = []
         \<and> filter mutation (snd (router PUT_course P req)) = []"
proof -
  from gate_attaches [OF assms(1)] have p: "params_id req' = params_id req"
    and m: "filter mutation t = []" by auto
  from assms(2) p have missing: "Course_findByPk P (params_id req') = Inr None" by simp
  have d: "router DELETE_course P req
           = (Responded (json_message 404
                ''Please double check that this course exists in the database.''),
              t @ [FindByPk (params_id req)])"
    using route_behind_gate(2) [OF assms(1)] delete_missing [OF missing] p by simp
  have u1: "validationResult P req' = [] \<Longrightarrow>
              router PUT_course P req
                = (Responded (json_message 404
                     ''Please double check that this course exists in the database.''),
                   t @ [FindByPk (params_id req)])"
    using route_behind_gate(1) [OF assms(1)] put_missing [OF _ missing] p by simp
  have u2: "validationResult P req' \<noteq> [] \<Longrightarrow>
              router PUT_course P req
                = (Responded (validation_failed (validationResult P req')), t)"
    using route_behind_gate(1) [OF assms(1)] put_invalid by simp
  have md: "filter mutation (snd (router DELETE_course P req)) = []"
    using d m by simp
  have mu: "filter mutation (snd (router PUT_course P req)) = []"
  proof (cases "validationResult P req' = []")
    case True
    with u1 m show ?thesis by simp
  next
    case False
    with u2 m show ?thesis by simp
  qed
  from d u1 u2 md mu show ?thesis by blast
qed

theorem missing_course_leaves_store_alone_witness:
  "authenticateUser demo_checked
       (request_of (Some ''alice@example.com:correct-secret'') ''99'' [(''title'', JStr ''T'')])
     = (Next ((request_of (Some ''alice@example.com:correct-secret'') ''99''
                 [(''title'', JStr ''T'')])\<lparr>currentUser := Some alice\<rparr>),
        [FindOne ''alice@example.com'',
         CompareSync ''correct-secret'' ''hashed:correct-secret'',
         Info ''Authentication is successful for user: alice@example.com''])
   \<and> Course_findByPk demo_checked ''99'' = Inr None
   \<and> router PUT_course demo_checked
       (request_of (Some ''alice@example.com:correct-secret'') ''99'' [(''title'', JStr ''T'')])
     = (Responded (json_message 404
          ''Please double check that this course exists in the database.''),
        [FindOne ''alice@example.com'',
         CompareSync ''correct-secret'' ''hashed:correct-secret'',
         Info ''Authentication is successful for user: alice@example.com'',
         FindByPk ''99''])
   \<and> router DELETE_course demo_checked
       (request_of (Some ''alice@example.com:correct-secret'') ''99'' [(''title'', JStr ''T'')])
     = (Responded (json_message 404
          ''Please double check that this course exists in the database.''),
        [FindOne ''alice@example.com'',
         CompareSync ''correct-secret'' ''hashed:correct-secret'',
         Info ''Authentication is successful for user: alice@example.com'',
         FindByPk ''99''])"
proof -
  let ?req = "request_of (Some ''alice@example.com:correct-secret'') ''99'' [(''title'', JStr ''T'')]"
  have g: "authenticateUser demo_checked ?req
     = (Next (?req\<lparr>currentUser := Some alice\<rparr>),
        [FindOne ''alice@example.com'',
         CompareSync ''correct-secret'' ''hashed:correct-secret'',
         Info ''Authentication is successful for user: alice@example.com''])"
    by (simp add: demo_checked_def run)
  have k: "params_id ?req = ''99''" by (simp add: request_of_def)
  have f: "Course_findByPk demo_checked (params_id ?req) = Inr None"
    by (simp add: demo_checked_def run)
  have v: "validationResult demo_checked (?req\<lparr>currentUser := Some alice\<rparr>) = []"
    by (simp add: demo_checked_def run)
  from missing_course_leaves_store_alone [OF g f] v g f k show ?thesis by simp
qed

theorem put_missing_course_counterexample:
  "authenticateUser demo_checked
       (request_of (Some ''alice@example.com:correct-secret'') ''99'' [])
     = (Next ((request_of (Some ''alice@example.com:correct-secret'') ''99'' [])
                 \<lparr>currentUser := Some alice\<rparr>),
        [FindOne ''alice@example.com'',
         CompareSync ''correct-secret'' ''hashed:correct-secret'',
         Info ''Authentication is successful for user: alice@example.com''])
   \<and> Course_findByPk demo_checked ''99'' = Inr None
   \<and> router PUT_course demo_checked
       (request_of (Some ''alice@example.com:correct-secret'') ''99'' [])
     = (Responded \<lparr>status = 400, location = None,
                   content = Json (JObj [(''errors'', JArr [JStr title_missing])])\<rparr>,
        [FindOne ''alice@example.com'',
         CompareSync ''correct-secret'' ''hashed:correct-secret'',
         Info ''Authentication is successful for user: alice@example.com''])"
  by (simp add: demo_checked_def run Let_def)

text \<open>
  Claim C3, as the code has it. For an authenticated user and an existing course, on
  \<^verbatim>\<open>DELETE\<close> and on a \<^verbatim>\<open>PUT\<close> whose body passed validation: when
  \<^verbatim>\<open>course.userId\<close> equals the user's id the route calls \<^verbatim>\<open>destroy\<close> respectively
  \<^verbatim>\<open>update\<close> on that course and answers 204 once the call returns; otherwise it answers
  403 with its ownership message and makes no such call. A \<^verbatim>\<open>PUT\<close> whose body failed
  validation is answered with 400 before any ownership comparison.
\<close>

theorem owner_decides_put_and_delete:
  assumes "authenticateUser P req = (Next req', t)"
    and "Course_findByPk P (params_id req) = Inr (Some c)"
  shows "\<exists>u. currentUser req' = Some u
         \<and> (userId c = user_id u \<longrightarrow>
               snd (router DELETE_course P req)
                 = t @ [FindByPk (params_id req), CourseDestroy c]
               \<and> (course_destroy P c = Inr () \<longrightarrow>
                    fst (router DELETE_course P req)
                      = Responded \<lparr>status = 204, location = None, content = NoContent\<rparr>)
               \<and> (validationResult P req' = [] \<longrightarrow>
                    snd (router PUT_course P req)
                      = t @ [FindByPk (params_id req), CourseUpdate c (body req)]
                    \<and> (course_update P c (body req) = Inr () \<longrightarrow>
                         fst (router PUT_course P req)
                           = Responded \<lparr>status = 204, location = None, content = NoContent\<rparr>)))
         \<and> (userId c \<noteq> user_id u \<longrightarrow>
               router DELETE_course P req
                 = (Responded (json_message 403
                      ''Please make sure you are trying to modify your own course.''),
                    t @ [FindByPk (params_id req)])
               \<and> filter mutation (snd (router DELETE_course P req)) = []
               \<and> (validationResult P req' = [] \<longrightarrow>
                    router PUT_course P req
                      = (Responded (json_message 403
                           ''Please make sure you are trying to edit your own course.''),
                         t @ [FindByPk (params_id req)])
                    \<and> filter mutation (snd (router PUT_course P req)) = []))
         \<and> (validationResult P req' \<noteq> [] \<longrightarrow>
               router PUT_course P req
                 = (Responded (validation_failed (validationResult P req')), t))"
proof -
  from gate_attaches [OF assms(1)] obtain u where u: "currentUser req' = Some u"
    and p: "params_id req' = params_id req" and b: "body req' = body req"
    and m: "filter mutation t = []" by auto
  from assms(2) p have found: "Course_findByPk P (params_id req') = Inr (Some c)" by simp
  note d = route_behind_gate(2) [OF assms(1)] delete_found [OF found u]
  note w = route_behind_gate(1) [OF assms(1)] put_found [OF _ found u]
  have 1: "userId c = user_id u \<Longrightarrow>
      snd (router DELETE_course P req) = t @ [FindByPk (params_id req), CourseDestroy c]"
    using d p by simp
  have 2: "userId c = user_id u \<Longrightarrow> course_destroy P c = Inr () \<Longrightarrow>
      fst (router DELETE_course P req)
        = Responded \<lparr>status = 204, location = None, content = NoContent\<rparr>"
    using d by simp
  have 3: "userId c = user_id u \<Longrightarrow> validationResult P req' = [] \<Longrightarrow>
      snd (router PUT_course P req) = t @ [FindByPk (params_id req), CourseUpdate c (body req)]"
    using w p b by simp
  have 4: "userId c = user_id u \<Longrightarrow> validationResult P req' = [] \<Longrightarrow>
      course_update P c (body req) = Inr () \<Longrightarrow>
      fst (router PUT_course P req)
        = Responded \<lparr>status = 204, location = None, content = NoContent\<rparr>"
    using w b by simp
  have 5: "userId c \<noteq> user_id u \<Longrightarrow>
      router DELETE_course P req
        = (Responded (json_message 403
             ''Please make sure you are trying to modify your own course.''),
           t @ [FindByPk (params_id req)])"
    using d p by simp
  have 6: "userId c \<noteq> user_id u \<Longrightarrow>
      filter mutation (snd (router DELETE_course P req)) = []"
    using 5 m by simp
  have 7: "userId c \<noteq> user_id u \<Longrightarrow> validationResult P req' = [] \<Longrightarrow>
      router PUT_course P req
        = (Responded (json_message 403
             ''Please make sure you are trying to edit your own course.''),
           t @ [FindByPk (params_id req)])"
    using w p by simp
  have 8: "userId c \<noteq> user_id u \<Longrightarrow> validationResult P req' = [] \<Longrightarrow>
      filter mutation (snd (router PUT_course P req)) = []"
    using 7 m by simp
  have 9: "validationResult P req' \<noteq> [] \<Longrightarrow>
      router PUT_course P req = (Responded (validation_failed (validationResult P req')), t)"
    using route_behind_gate(1) [OF assms(1)] put_invalid by simp
  from u 1 2 3 4 5 6 7 8 9 show ?thesis by blast
qed

theorem owner_decides_put_and_delete_witness:
  "Course_findByPk demo_checked ''1'' = Inr (Some course_of_alice)
   \<and> Course_findByPk demo_checked ''2'' = Inr (Some course_of_bob)
   \<and> userId course_of_alice = user_id alice
   \<and> userId course_of_bob \<noteq> user_id alice
   \<and> fst (authenticateUser demo_checked
        (request_of (Some ''alice@example.com:correct-secret'') ''1'' [(''title'', JStr ''T'')]))
       = Next ((request_of (Some ''alice@example.com:correct-secret'') ''1''
                 [(''title'', JStr ''T'')])\<lparr>currentUser := Some alice\<rparr>)
   \<and> fst (router PUT_course demo_checked
        (request_of (Some ''alice@example.com:correct-secret'') ''1'' [(''title'', JStr ''T'')]))
       = Responded \<lparr>status = 204, location = None, content = NoContent\<rparr>
   \<and> fst (router DELETE_course demo_checked
        (request_of (Some ''alice@example.com:correct-secret'') ''1'' [(''title'', JStr ''T'')]))
       = Responded \<lparr>status = 204, location = None, content = NoContent\<rparr>
   \<and> fst (router PUT_course demo_checked
        (request_of (Some ''alice@example.com:correct-secret'') ''2'' [(''title'', JStr ''T'')]))
       = Responded (json_message 403
            ''Please make sure you are trying to edit your own course.'')
   \<and> fst (router DELETE_course demo_checked
        (request_of (Some ''alice@example.com:correct-secret'') ''2'' [(''title'', JStr ''T'')]))
       = Responded (json_message 403
            ''Please make sure you are trying to modify your own course.'')
   \<and> fst (router PUT_course demo_checked
        (request_of (Some ''alice@example.com:correct-secret'') ''2'' []))
       = Responded (validation_failed [title_missing])"
proof -
  let ?r1 = "request_of (Some ''alice@example.com:correct-secret'') ''1'' [(''title'', JStr ''T'')]"
  let ?r2 = "request_of (Some ''alice@example.com:correct-secret'') ''2'' [(''title'', JStr ''T'')]"
  let ?r3 = "request_of (Some ''alice@example.com:correct-secret'') ''2'' []"
  let ?t = "[FindOne ''alice@example.com'',
         CompareSync ''correct-secret'' ''hashed:correct-secret'',
         Info ''Authentication is successful for user: alice@example.com'']"
  have g1: "authenticateUser demo_checked ?r1 = (Next (?r1\<lparr>currentUser := Some alice\<rparr>), ?t)"
    and g2: "authenticateUser demo_checked ?r2 = (Next (?r2\<lparr>currentUser := Some alice\<rparr>), ?t)"
    and g3: "authenticateUser demo_checked ?r3 = (Next (?r3\<lparr>currentUser := Some alice\<rparr>), ?t)"
    by (simp_all add: demo_checked_def run)
  have f1: "Course_findByPk demo_checked (params_id ?r1) = Inr (Some course_of_alice)"
    and f2: "Course_findByPk demo_checked (params_id ?r2) = Inr (Some course_of_bob)"
    and f3: "Course_findByPk demo_checked (params_id ?r3) = Inr (Some course_of_bob)"
    by (simp_all add: demo_checked_def run)
  have k: "Course_findByPk demo_checked ''1'' = Inr (Some course_of_alice)"
    "Course_findByPk demo_checked ''2'' = Inr (Some course_of_bob)"
    using f1 f2 by (simp_all add: request_of_def)
  have o: "userId course_of_alice = user_id alice" "userId course_of_bob \<noteq> user_id alice"
    by (simp_all add: run)
  have v: "validationResult demo_checked (?r1\<lparr>currentUser := Some alice\<rparr>) = []"
    "validationResult demo_checked (?r2\<lparr>currentUser := Some alice\<rparr>) = []"
    "validationResult demo_checked (?r3\<lparr>currentUser := Some alice\<rparr>) = [title_missing]"
    by (simp_all add: demo_checked_def run)
  have x: "course_update demo_checked course_of_alice (body ?r1) = Inr ()"
    "course_destroy demo_checked course_of_alice = Inr ()"
    by (simp_all add: demo_checked_def demo_def sequelize_reads_def)
  have c1: "fst (router PUT_course demo_checked ?r1)
       = Responded \<lparr>status = 204, location = None, content = NoContent\<rparr>"
    and c2: "fst (router DELETE_course demo_checked ?r1)
       = Responded \<lparr>status = 204, location = None, content = NoContent\<rparr>"
    using owner_decides_put_and_delete [OF g1 f1] o v x by auto
  have c3: "fst (router PUT_course demo_checked ?r2)
       = Responded (json_message 403
            ''Please make sure you are trying to edit your own course.'')"
    and c4: "fst (router DELETE_course demo_checked ?r2)
       = Responded (json_message 403
            ''Please make sure you are trying to modify your own course.'')"
    using owner_decides_put_and_delete [OF g2 f2] o v by auto
  have c5: "fst (router PUT_course demo_checked ?r3) = Responded (validation_failed [title_missing])"
    using owner_decides_put_and_delete [OF g3 f3] v by auto
  from k o g1 c1 c2 c3 c4 c5 show ?thesis by simp
qed

theorem owner_put_invalid_body_counterexample:
  "authenticateUser demo_checked
       (request_of (Some ''alice@example.com:correct-secret'') ''1'' [])
     = (Next ((request_of (Some ''alice@example.com:correct-secret'') ''1'' [])
                 \<lparr>currentUser := Some alice\<rparr>),
        [FindOne ''alice@example.com'',
         CompareSync ''correct-secret'' ''hashed:correct-secret'',
         Info ''Authentication is successful for user: alice@example.com''])
   \<and> Course_findByPk demo_checked ''1'' = Inr (Some course_of_alice)
   \<and> userId course_of_alice = user_id alice
   \<and> router PUT_course demo_checked
       (request_of (Some ''alice@example.com:correct-secret'') ''1'' [])
     = (Responded \<lparr>status = 400, location = None,
                   content = Json (JObj [(''errors'', JArr [JStr title_missing])])\<rparr>,
        [FindOne ''alice@example.com'',
         CompareSync ''correct-secret'' ''hashed:correct-secret'',
         Info ''Authentication is successful for user: alice@example.com''])"
  by (simp add: demo_checked_def run Let_def)

lemma put_mutations:
  assumes "ev \<in> set (snd (asyncHandler put_course P req'))" and "mutation ev"
  shows "\<exists>c u. currentUser req' = Some u \<and> ev = CourseUpdate c (body req')
           \<and> Course_findByPk P (params_id req') = Inr (Some c) \<and> userId c = user_id u"
  using assms
  by (auto simp: asyncHandler_def put_course_def Let_def
           split: if_splits sum.splits option.splits)

lemma delete_mutations:
  assumes "ev \<in> set (snd (asyncHandler delete_course P req'))" and "mutation ev"
  shows "\<exists>c u. currentUser req' = Some u \<and> ev = CourseDestroy c
           \<and> Course_findByPk P (params_id req') = Inr (Some c) \<and> userId c = user_id u"
  using assms
  by (auto simp: asyncHandler_def delete_course_def
           split: if_splits sum.splits option.splits)

lemma post_courses_mutations:
  assumes "ev \<in> set (snd (asyncHandler post_courses P req'))" and "mutation ev"
  shows "ev = CourseCreate (body req')"
  using assms
  by (auto simp: asyncHandler_def post_courses_def Let_def split: if_splits sum.splits)

lemma post_users_mutations:
  assumes "ev \<in> set (snd (asyncHandler post_users P req))" and "mutation ev"
  shows "\<exists>b. ev = UserCreate b"
  using assms
  by (auto simp: asyncHandler_def post_users_def post_users_catch_def Let_def
           split: if_splits sum.splits)

lemma reads_no_mutation:
  "filter mutation (snd (asyncHandler get_users P req)) = []"
  "filter mutation (snd (asyncHandler get_courses P req)) = []"
  "filter mutation (snd (asyncHandler get_course P req)) = []"
  by (auto simp: asyncHandler_def get_users_def get_courses_def get_course_def
           split: sum.splits option.splits)

lemma not_mutation: "filter mutation t = [] \<Longrightarrow> ev \<in> set t \<Longrightarrow> \<not> mutation ev"
  by (auto simp: filter_empty_conv)

lemma gated_mutation_behind_gate:
  assumes "ev \<in> set (snd (after_auth h P req))" and "mutation ev"
  shows "\<exists>req' t u. authenticateUser P req = (Next req', t) \<and> currentUser req' = Some u
           \<and> params_id req' = params_id req \<and> body req' = body req
           \<and> ev \<in> set (snd (h P req'))"
proof (cases "authenticateUser P req")
  case (Pair r t)
  have nm: "filter mutation t = []" using gate_no_mutation [of P req] Pair by simp
  show ?thesis
  proof (cases r)
    case (Next req')
    with Pair have g: "authenticateUser P req = (Next req', t)" by simp
    from after_auth_Next [OF g] assms(1) have "ev \<in> set t \<or> ev \<in> set (snd (h P req'))"
      by auto
    with not_mutation [OF nm] assms(2) have "ev \<in> set (snd (h P req'))" by blast
    with g gate_attaches [OF g] show ?thesis by blast
  next
    case (Responded x)
    with Pair assms(1) have "ev \<in> set t" by (simp add: after_auth_Responded)
    with not_mutation [OF nm] assms(2) show ?thesis by blast
  next
    case (Raised x)
    with Pair assms(1) have "ev \<in> set t" by (simp add: after_auth_Raised)
    with not_mutation [OF nm] assms(2) show ?thesis by blast
  qed
qed

text \<open>
  Claim C2, as the code has it. Every call that changes the store is made for an
  authenticated user (creating a user apart, which needs no authentication). An update or
  a destroy is called only on the course found under the key of the URL, and only when
  that course's \<^verbatim>\<open>userId\<close> equals the id of the authenticated user. A create is called
  with the request body as it came; neither create nor update compares a
  \<^verbatim>\<open>userId\<close> in the body with the authenticated user.
\<close>

theorem mutations_target_own_course:
  assumes "ev \<in> set (snd (router rt P req))" and "mutation ev"
  shows "(rt = POST_users \<and> (\<exists>b. ev = UserCreate b))
         \<or> (\<exists>req' t u. authenticateUser P req = (Next req', t) \<and> currentUser req' = Some u
              \<and> ((rt = PUT_course
                    \<and> (\<exists>c. ev = CourseUpdate c (body req)
                          \<and> Course_findByPk P (params_id req) = Inr (Some c)
                          \<and> userId c = user_id u))
                  \<or> (rt = DELETE_course
                    \<and> (\<exists>c. ev = CourseDestroy c
                          \<and> Course_findByPk P (params_id req) = Inr (Some c)
                          \<and> userId c = user_id u))
                  \<or> (rt = POST_courses \<and> ev = CourseCreate (body req))))"
proof (cases rt)
  case GET_users
  with assms gated_mutation_behind_gate [of ev "asyncHandler get_users" P req]
  obtain req' where "ev \<in> set (snd (asyncHandler get_users P req'))" by auto
  with not_mutation [OF reads_no_mutation(1)] assms(2) show ?thesis by blast
next
  case POST_users
  with assms post_users_mutations [of ev P req] show ?thesis by simp
next
  case GET_courses
  with assms not_mutation [OF reads_no_mutation(2), of ev P req] show ?thesis by simp
next
  case GET_course
  with assms not_mutation [OF reads_no_mutation(3), of ev P req] show ?thesis by simp
next
  case POST_courses
  with assms gated_mutation_behind_gate [of ev "asyncHandler post_courses" P req]
  obtain req' t u where g: "authenticateUser P req = (Next req', t)" "currentUser req' = Some u"
    "body req' = body req" and e: "ev \<in> set (snd (asyncHandler post_courses P req'))"
    by auto
  from post_courses_mutations [OF e assms(2)] g have "ev = CourseCreate (body req)" by simp
  with g POST_courses show ?thesis by blast
next
  case PUT_course
  with assms gated_mutation_behind_gate [of ev "asyncHandler put_course" P req]
  obtain req' t u where g: "authenticateUser P req = (Next req', t)" "currentUser req' = Some u"
    and k: "params_id req' = params_id req" "body req' = body req"
    and e: "ev \<in> set (snd (asyncHandler put_course P req'))"
    by auto
  from put_mutations [OF e assms(2)] g k obtain c where
    "ev = CourseUpdate c (body req)" "Course_findByPk P (params_id req) = Inr (Some c)"
    "userId c = user_id u" by auto
  with g PUT_course show ?thesis by blast
next
  case DELETE_course
  with assms gated_mutation_behind_gate [of ev "asyncHandler delete_course" P req]
  obtain req' t u where g: "authenticateUser P req = (Next req', t)" "currentUser req' = Some u"
    and k: "params_id req' = params_id req" "body req' = body req"
    and e: "ev \<in> set (snd (asyncHandler delete_course P req'))"
    by auto
  from delete_mutations [OF e assms(2)] g k obtain c where
    "ev = CourseDestroy c" "Course_findByPk P (params_id req) = Inr (Some c)"
    "userId c = user_id u" by auto
  with g DELETE_course show ?thesis by blast
qed

theorem mutations_target_own_course_witness:
  "CourseDestroy course_of_alice
     \<in> set (snd (router DELETE_course demo
          (request_of (Some ''alice@example.com:correct-secret'') ''1'' [])))
   \<and> mutation (CourseDestroy course_of_alice)
   \<and> (\<exists>req' t u. authenticateUser demo
          (request_of (Some ''alice@example.com:correct-secret'') ''1'' []) = (Next req', t)
        \<and> currentUser req' = Some u \<and> userId course_of_alice = user_id u)"
proof -
  let ?r = "request_of (Some ''alice@example.com:correct-secret'') ''1'' []"
  have a: "CourseDestroy course_of_alice \<in> set (snd (router DELETE_course demo ?r))"
    by (simp add: run)
  have b: "mutation (CourseDestroy course_of_alice)" by simp
  from mutations_target_own_course [OF a b] a b show ?thesis by auto
qed

theorem create_for_another_owner_counterexample:
  "authenticateUser demo
       (request_of (Some ''alice@example.com:correct-secret'') []
          [(''title'', JStr ''T''), (''description'', JStr ''D''), (''userId'', JNum 2)])
     = (Next ((request_of (Some ''alice@example.com:correct-secret'') []
                 [(''title'', JStr ''T''), (''description'', JStr ''D''), (''userId'', JNum 2)])
                 \<lparr>currentUser := Some alice\<rparr>),
        [FindOne ''alice@example.com'',
         CompareSync ''correct-secret'' ''hashed:correct-secret'',
         Info ''Authentication is successful for user: alice@example.com''])
   \<and> user_id alice = 1
   \<and> Course_create demo
        [(''title'', JStr ''T''), (''description'', JStr ''D''), (''userId'', JNum 2)]
     = Inr \<lparr>course_id = 3, title = ''T'', description = ''D'', estimatedTime = None,
            materialsNeeded = None, userId = 2\<rparr>
   \<and> router POST_courses demo
       (request_of (Some ''alice@example.com:correct-secret'') []
          [(''title'', JStr ''T''), (''description'', JStr ''D''), (''userId'', JNum 2)])
     = (Responded \<lparr>status = 201, location = Some ''/courses/3'', content = NoContent\<rparr>,
        [FindOne ''alice@example.com'',
         CompareSync ''correct-secret'' ''hashed:correct-secret'',
         Info ''Authentication is successful for user: alice@example.com'',
         CourseCreate
           [(''title'', JStr ''T''), (''description'', JStr ''D''), (''userId'', JNum 2)]])"
  by (simp add: run Let_def)

section \<open>Faults of the collaborators\<close>

lemma gate_fault:
  assumes "ev \<in> set (snd (authenticateUser P req))" and "fault_of P ev = Some e"
  shows "fst (authenticateUser P req) = Raised e"
  using assms
  by (auto simp: authenticateUser_def thrown_def split: option.splits sum.splits if_splits)

lemma handler_fault:
  assumes "h = get_users \<or> h = get_courses \<or> h = get_course \<or> h = post_courses
           \<or> h = put_course \<or> h = delete_course"
    and "ev \<in> set (snd (asyncHandler h P req))" and "fault_of P ev = Some e"
  shows "fst (asyncHandler h P req)
           = Responded \<lparr>status = 500, location = None, content = Sent e\<rparr>"
  using assms
  by (elim disjE)
     (auto simp: asyncHandler_def get_users_def get_courses_def get_course_def
                 post_courses_def put_course_def delete_course_def thrown_def Let_def
           split: option.splits sum.splits if_splits)

lemma post_users_fault:
  assumes "ev \<in> set (snd (asyncHandler post_users P req))" and "fault_of P ev = Some e"
  shows "fst (asyncHandler post_users P req)
           = (if error_name e = ''SequelizeUniqueConstraintError''
              then Responded (json_message 422 ''Hmm, this email is already taken!'')
              else Responded \<lparr>status = 500, location = None, content = Sent e\<rparr>)"
  using assms
  by (auto simp: asyncHandler_def post_users_def post_users_catch_def thrown_def Let_def
           split: option.splits sum.splits if_splits)

lemma after_auth_fault:
  assumes "ev \<in> set (snd (after_auth h P req))" and "fault_of P ev = Some e"
  shows "fst (after_auth h P req) = Raised e
         \<or> (\<exists>req' t. authenticateUser P req = (Next req', t) \<and> ev \<in> set (snd (h P req'))
               \<and> fst (after_auth h P req) = fst (h P req'))"
proof (cases "authenticateUser P req")
  case (Pair r t)
  show ?thesis
  proof (cases r)
    case (Next req')
    with Pair have g: "authenticateUser P req = (Next req', t)" by simp
    from gate_fault [of ev P req e] g assms(2) have "ev \<notin> set t" by auto
    with after_auth_Next [OF g] assms(1) have "ev \<in> set (snd (h P req'))" by auto
    with g after_auth_Next [OF g] show ?thesis by simp
  next
    case (Responded x)
    with Pair have g: "authenticateUser P req = (Responded x, t)" by simp
    with assms(1) have "ev \<in> set (snd (authenticateUser P req))"
      by (simp add: after_auth_Responded)
    from gate_fault [OF this assms(2)] g show ?thesis by simp
  next
    case (Raised x)
    with Pair have g: "authenticateUser P req = (Raised x, t)" by simp
    with assms(1) have "ev \<in> set (snd (authenticateUser P req))"
      by (simp add: after_auth_Raised)
    from gate_fault [OF this assms(2)] g show ?thesis by (simp add: after_auth_Raised)
  qed
qed

lemma router_fault:
  assumes "ev \<in> set (snd (router rt P req))" and "fault_of P ev = Some e"
  shows "fst (router rt P req) = Raised e
         \<or> fst (router rt P req) = Responded \<lparr>status = 500, location = None, content = Sent e\<rparr>
         \<or> (rt = POST_users \<and> error_name e = ''SequelizeUniqueConstraintError''
             \<and> fst (router rt P req)
                 = Responded (json_message 422 ''Hmm, this email is already taken!''))"
proof (cases "gated rt")
  case True
  then obtain h where h: "router rt = after_auth (asyncHandler h)"
    "h = get_users \<or> h = get_courses \<or> h = get_course \<or> h = post_courses
           \<or> h = put_course \<or> h = delete_course"
    by (cases rt) auto
  from after_auth_fault [of ev "asyncHandler h" P req e] assms h(1)
  show ?thesis using handler_fault [OF h(2), of ev P _ e] by auto
next
  case False
  then consider "rt = POST_users" | "rt = GET_courses" | "rt = GET_course" by (cases rt) auto
  then show ?thesis
  proof cases
    case 1
    with assms post_users_fault [of ev P req e] show ?thesis by auto
  next
    case 2
    with assms handler_fault [of get_courses ev P req e] show ?thesis by auto
  next
    case 3
    with assms handler_fault [of get_course ev P req e] show ?thesis by auto
  qed
qed

section \<open>The status codes of the handlers\<close>

lemma handler_status:
  assumes "h = get_users \<or> h = get_courses \<or> h = get_course \<or> h = post_courses
           \<or> h = post_users"
    and "fst (asyncHandler h P req) = Responded r"
  shows "status r \<noteq> 401 \<and> status r \<noteq> 403"
  using assms
  by (elim disjE)
     (auto simp: asyncHandler_def get_users_def get_courses_def get_course_def
                 post_courses_def post_users_def post_users_catch_def Let_def
                 json_message_def validation_failed_def
           split: option.splits sum.splits if_splits)

lemma put_status:
  assumes "fst (asyncHandler put_course P req) = Responded r"
  shows "status r \<noteq> 401 \<and>
         (status r = 403 \<longrightarrow>
            (\<exists>u c. currentUser req = Some u \<and> Course_findByPk P (params_id req) = Inr (Some c)
                  \<and> userId c \<noteq> user_id u))"
  using assms
  by (auto simp: asyncHandler_def put_course_def Let_def json_message_def
                 validation_failed_def
           split: option.splits sum.splits if_splits)

lemma delete_status:
  assumes "fst (asyncHandler delete_course P req) = Responded r"
  shows "status r \<noteq> 401 \<and>
         (status r = 403 \<longrightarrow>
            (\<exists>u c. currentUser req = Some u \<and> Course_findByPk P (params_id req) = Inr (Some c)
                  \<and> userId c \<noteq> user_id u))"
  using assms
  by (auto simp: asyncHandler_def delete_course_def json_message_def
           split: option.splits sum.splits if_splits)

lemma status_401:
  assumes "fst (router rt P req) = Responded r" and "status r = 401"
  shows "gated rt \<and> r = unauthorized \<and> (auth P req = None
              \<or> (\<exists>c. auth P req = Some c
                    \<and> (User_findOne P (name c) = Inr None
                        \<or> (\<exists>u. User_findOne P (name c) = Inr (Some u)
                              \<and> compareSync P (pass c) (password u) = Inr False))))"
proof (cases "gated rt")
  case False
  then consider "rt = POST_users" | "rt = GET_courses" | "rt = GET_course" by (cases rt) auto
  then have "status r \<noteq> 401"
  proof cases
    case 1 with assms(1) handler_status [of post_users P req r] show ?thesis by simp
  next
    case 2 with assms(1) handler_status [of get_courses P req r] show ?thesis by simp
  next
    case 3 with assms(1) handler_status [of get_course P req r] show ?thesis by simp
  qed
  with assms(2) show ?thesis by simp
next
  case True
  then obtain h where h: "router rt = after_auth (asyncHandler h)"
    and hs: "h = get_users \<or> h = post_courses \<or> h = put_course \<or> h = delete_course"
    by (cases rt) auto
  obtain x t where g: "authenticateUser P req = (x, t)" by (cases "authenticateUser P req")
  show ?thesis
  proof (cases x)
    case (Next req')
    with g after_auth_Next [of P req req' t "asyncHandler h"] h assms(1)
    have "fst (asyncHandler h P req') = Responded r" by simp
    with hs handler_status [of h P req' r] put_status [of P req' r] delete_status [of P req' r]
    have "status r \<noteq> 401" by auto
    with assms(2) show ?thesis by simp
  next
    case (Responded y)
    with g have g': "authenticateUser P req = (Responded y, t)" by simp
    with h assms(1) have "y = r" by (simp add: after_auth_Responded)
    with gate_Responded [OF g'] True show ?thesis by auto
  next
    case (Raised y)
    with g h assms(1) show ?thesis by (simp add: after_auth_Raised)
  qed
qed

lemma status_403:
  assumes "fst (router rt P req) = Responded r" and "status r = 403"
  shows "(rt = PUT_course \<or> rt = DELETE_course) \<and> (\<exists>req' t u c. authenticateUser P req = (Next req', t) \<and> currentUser req' = Some u
              \<and> Course_findByPk P (params_id req) = Inr (Some c)
              \<and> userId c \<noteq> user_id u)"
proof (cases "gated rt")
  case False
  then consider "rt = POST_users" | "rt = GET_courses" | "rt = GET_course" by (cases rt) auto
  then have "status r \<noteq> 403"
  proof cases
    case 1 with assms(1) handler_status [of post_users P req r] show ?thesis by simp
  next
    case 2 with assms(1) handler_status [of get_courses P req r] show ?thesis by simp
  next
    case 3 with assms(1) handler_status [of get_course P req r] show ?thesis by simp
  qed
  with assms(2) show ?thesis by simp
next
  case True
  obtain x t where g: "authenticateUser P req = (x, t)" by (cases "authenticateUser P req")
  show ?thesis
  proof (cases x)
    case (Next req')
    with g have g': "authenticateUser P req = (Next req', t)" by simp
    from gate_attaches [OF g'] have p: "params_id req' = params_id req" by auto
    note r = route_behind_gate [OF g']
    from True consider "rt = GET_users" | "rt = POST_courses" | "rt = PUT_course"
      | "rt = DELETE_course" by (cases rt) auto
    then show ?thesis
    proof cases
      case 1
      with r(4) assms handler_status [of get_users P req' r] show ?thesis by simp
    next
      case 2
      with r(3) assms handler_status [of post_courses P req' r] show ?thesis by simp
    next
      case 3
      with r(1) assms put_status [of P req' r] p g' show ?thesis by auto
    next
      case 4
      with r(2) assms delete_status [of P req' r] p g' show ?thesis by auto
    qed
  next
    case (Responded y)
    with g have g': "authenticateUser P req = (Responded y, t)" by simp
    from True obtain h where "router rt = after_auth (asyncHandler h)" using router_gated by blast
    with g' assms(1) have "y = r" by (simp add: after_auth_Responded)
    with gate_Responded [OF g'] assms(2) show ?thesis by (simp add: unauthorized_def)
  next
    case (Raised y)
    from True obtain h where "router rt = after_auth (asyncHandler h)" using router_gated by blast
    with Raised g assms(1) show ?thesis by (simp add: after_auth_Raised)
  qed
qed

text \<open>
  Claim C6. When a call to a collaborator throws (the lookup, the hash comparison, the
  hashing, or any other recorded call), the request ends with that error: thrown out of
  \<^verbatim>\<open>authenticateUser\<close>, which nothing wraps, or answered by \<^verbatim>\<open>asyncHandler\<close> with
  status 500 and the error (the unique-constraint error of \<^verbatim>\<open>POST /users\<close> with 422);
  never with 401 or 403. A 401 is sent only by \<^verbatim>\<open>authenticateUser\<close> for a credential
  that is absent, unknown or wrong, and a 403 only by \<^verbatim>\<open>PUT\<close> and \<^verbatim>\<open>DELETE\<close> for an
  existing course whose \<^verbatim>\<open>userId\<close> differs from the authenticated user's id.
\<close>

theorem faults_are_not_masked:
  "(\<forall>ev e. ev \<in> set (snd (router rt P req)) \<longrightarrow> fault_of P ev = Some e \<longrightarrow>
        (fst (router rt P req) = Raised e
         \<or> fst (router rt P req)
             = Responded \<lparr>status = 500, location = None, content = Sent e\<rparr>
         \<or> (rt = POST_users \<and> error_name e = ''SequelizeUniqueConstraintError''
             \<and> fst (router rt P req)
                 = Responded (json_message 422 ''Hmm, this email is already taken!'')))
        \<and> (\<forall>r. fst (router rt P req) = Responded r \<longrightarrow> status r \<noteq> 401 \<and> status r \<noteq> 403))
   \<and> (\<forall>r. fst (router rt P req) = Responded r \<longrightarrow> status r = 401 \<longrightarrow>
          gated rt \<and> r = unauthorized
          \<and> (auth P req = None
              \<or> (\<exists>c. auth P req = Some c
                    \<and> (User_findOne P (name c) = Inr None
                        \<or> (\<exists>u. User_findOne P (name c) = Inr (Some u)
                              \<and> compareSync P (pass c) (password u) = Inr False)))))
   \<and> (\<forall>r. fst (router rt P req) = Responded r \<longrightarrow> status r = 403 \<longrightarrow>
          (rt = PUT_course \<or> rt = DELETE_course)
          \<and> (\<exists>req' t u c. authenticateUser P req = (Next req', t) \<and> currentUser req' = Some u
              \<and> Course_findByPk P (params_id req) = Inr (Some c)
              \<and> userId c \<noteq> user_id u))"
proof (intro conjI allI impI)
  fix ev e assume a: "ev \<in> set (snd (router rt P req))" "fault_of P ev = Some e"
  from router_fault [OF a]
  show s: "fst (router rt P req) = Raised e
         \<or> fst (router rt P req)
             = Responded \<lparr>status = 500, location = None, content = Sent e\<rparr>
         \<or> (rt = POST_users \<and> error_name e = ''SequelizeUniqueConstraintError''
             \<and> fst (router rt P req)
                 = Responded (json_message 422 ''Hmm, this email is already taken!''))" .
  fix r assume "fst (router rt P req) = Responded r"
  with s show "status r \<noteq> 401" "status r \<noteq> 403" by (auto simp: json_message_def)
next
  fix r assume a: "fst (router rt P req) = Responded r" "status r = 401"
  from status_401 [OF a] show "gated rt" "r = unauthorized"
    "(auth P req = None
              \<or> (\<exists>c. auth P req = Some c
                    \<and> (User_findOne P (name c) = Inr None
                        \<or> (\<exists>u. User_findOne P (name c) = Inr (Some u)
                              \<and> compareSync P (pass c) (password u) = Inr False))))"
    by blast+
next
  fix r assume a: "fst (router rt P req) = Responded r" "status r = 403"
  from status_403 [OF a] show "rt = PUT_course \<or> rt = DELETE_course"
    "(\<exists>req' t u c. authenticateUser P req = (Next req', t) \<and> currentUser req' = Some u
              \<and> Course_findByPk P (params_id req) = Inr (Some c)
              \<and> userId c \<noteq> user_id u)"
    by blast+
qed

theorem faults_are_not_masked_witness:
  "FindOne ''alice@example.com''
     \<in> set (snd (router GET_users (demo\<lparr>User_findOne := \<lambda>i. Inl unavailable\<rparr>)
                   (request_of (Some ''alice@example.com:correct-secret'') [] [])))
   \<and> fault_of (demo\<lparr>User_findOne := \<lambda>i. Inl unavailable\<rparr>) (FindOne ''alice@example.com'')
       = Some unavailable
   \<and> fst (router GET_users (demo\<lparr>User_findOne := \<lambda>i. Inl unavailable\<rparr>)
            (request_of (Some ''alice@example.com:correct-secret'') [] []))
       = Raised unavailable
   \<and> HashSync None \<in> set (snd (router POST_users demo (request_of None [] [])))
   \<and> fault_of demo (HashSync None) = Some (Error ''Error'')
   \<and> fst (router POST_users demo (request_of None [] []))
       = Responded \<lparr>status = 500, location = None, content = Sent (Error ''Error'')\<rparr>
   \<and> fst (router DELETE_course demo (request_of (Some ''alice@example.com:wrong'') ''1'' []))
       = Responded unauthorized
   \<and> status unauthorized = 401
   \<and> gated DELETE_course
   \<and> fst (router DELETE_course demo
            (request_of (Some ''alice@example.com:correct-secret'') ''2'' []))
       = Responded (json_message 403
            ''Please make sure you are trying to modify your own course.'')
   \<and> status (json_message 403
            ''Please make sure you are trying to modify your own course.'') = 403
   \<and> (\<exists>req' t u c. authenticateUser demo
            (request_of (Some ''alice@example.com:correct-secret'') ''2'' []) = (Next req', t)
          \<and> currentUser req' = Some u
          \<and> Course_findByPk demo
               (params_id (request_of (Some ''alice@example.com:correct-secret'') ''2'' []))
              = Inr (Some c)
          \<and> userId c \<noteq> user_id u)"
proof -
  let ?P1 = "demo\<lparr>User_findOne := \<lambda>i. Inl unavailable\<rparr>"
  let ?r1 = "request_of (Some ''alice@example.com:correct-secret'') [] []"
  let ?r2 = "request_of None [] []"
  let ?r3 = "request_of (Some ''alice@example.com:wrong'') ''1'' []"
  let ?r4 = "request_of (Some ''alice@example.com:correct-secret'') ''2'' []"
  have e1: "FindOne ''alice@example.com'' \<in> set (snd (router GET_users ?P1 ?r1))"
    by (simp add: run)
  have f1: "fault_of ?P1 (FindOne ''alice@example.com'') = Some unavailable"
    by (simp add: thrown_def)
  have n1: "fst (router GET_users ?P1 ?r1)
              \<noteq> Responded \<lparr>status = 500, location = None, content = Sent unavailable\<rparr>"
    by (simp add: run)
  have c1: "fst (router GET_users ?P1 ?r1) = Raised unavailable"
    using faults_are_not_masked [of GET_users ?P1 ?r1] e1 f1 n1 by blast
  have e2: "HashSync None \<in> set (snd (router POST_users demo ?r2))"
    by (simp add: run)
  have f2: "fault_of demo (HashSync None) = Some (Error ''Error'')"
    by (simp add: thrown_def run)
  have n2: "fst (router POST_users demo ?r2) \<noteq> Raised (Error ''Error'')"
    "error_name (Error ''Error'') \<noteq> ''SequelizeUniqueConstraintError''"
    by (simp_all add: run)
  have c2: "fst (router POST_users demo ?r2)
       = Responded \<lparr>status = 500, location = None, content = Sent (Error ''Error'')\<rparr>"
    using faults_are_not_masked [of POST_users demo ?r2] e2 f2 n2 by blast
  have r3: "fst (router DELETE_course demo ?r3) = Responded unauthorized"
    and s3: "status unauthorized = 401"
    by (simp_all add: run)
  have c3: "gated DELETE_course"
    using faults_are_not_masked [of DELETE_course demo ?r3] r3 s3 by blast
  have r4: "fst (router DELETE_course demo ?r4)
       = Responded (json_message 403
            ''Please make sure you are trying to modify your own course.'')"
    and s4: "status (json_message 403
            ''Please make sure you are trying to modify your own course.'') = 403"
    by (simp_all add: run)
  have c4: "\<exists>req' t u c. authenticateUser demo ?r4 = (Next req', t)
          \<and> currentUser req' = Some u
          \<and> Course_findByPk demo (params_id ?r4) = Inr (Some c)
          \<and> userId c \<noteq> user_id u"
    using faults_are_not_masked [of DELETE_course demo ?r4] r4 s4 by blast
  from e1 f1 c1 e2 f2 c2 r3 s3 c3 r4 s4 c4 show ?thesis by blast
qed

text \<open>
  Claim C8. A \<^verbatim>\<open>POST /api/users\<close> answered with 201 has called \<^verbatim>\<open>User.create\<close> exactly
  once, on the request body with its \<^verbatim>\<open>password\<close> replaced by what \<^verbatim>\<open>hashSync\<close>
  returned for the password sent; the plaintext is stored only if the hash function
  returned its input unchanged. The response carries the \<^verbatim>\<open>Location\<close> header \<^verbatim>\<open>/\<close> and
  no content.
\<close>

theorem created_user_stores_hash:
  assumes "router POST_users P req = (Responded r, t)" and "status r = 201"
  shows "r = \<lparr>status = 201, location = Some ''/'', content = NoContent\<rparr>
         \<and> (\<exists>h. hashSync P (map_of (body req) ''password'') = Inr h
               \<and> filter mutation t = [UserCreate (AList.update ''password'' (JStr h) (body req))]
               \<and> map_of (AList.update ''password'' (JStr h) (body req)) ''password''
                   = Some (JStr h)
               \<and> (\<forall>p. map_of (body req) ''password'' = Some (JStr p) \<longrightarrow> h \<noteq> p \<longrightarrow>
                      map_of (AList.update ''password'' (JStr h) (body req)) ''password''
                        \<noteq> Some (JStr p)))"
  using assms
  by (auto simp: asyncHandler_def post_users_def post_users_catch_def Let_def
                 json_message_def validation_failed_def update_Some_unfold
           split: sum.splits if_splits)

theorem created_user_stores_hash_witness:
  "router POST_users demo
     (request_of None []
        [(''firstName'', JStr ''Carol''), (''lastName'', JStr ''C''),
         (''emailAddress'', JStr ''carol@example.com''), (''password'', JStr ''pw'')])
     = (Responded \<lparr>status = 201, location = Some ''/'', content = NoContent\<rparr>,
        [HashSync (Some (JStr ''pw'')),
         UserCreate
           [(''firstName'', JStr ''Carol''), (''lastName'', JStr ''C''),
            (''emailAddress'', JStr ''carol@example.com''),
            (''password'', JStr ''hashed:pw'')]])
   \<and> status \<lparr>status = 201, location = Some ''/'', content = NoContent\<rparr> = 201
   \<and> (\<exists>h. hashSync demo (Some (JStr ''pw'')) = Inr h \<and> h \<noteq> ''pw''
        \<and> map_of (AList.update ''password'' (JStr h)
              [(''firstName'', JStr ''Carol''), (''lastName'', JStr ''C''),
               (''emailAddress'', JStr ''carol@example.com''), (''password'', JStr ''pw'')])
             ''password'' \<noteq> Some (JStr ''pw''))"
proof -
  let ?b = "[(''firstName'', JStr ''Carol''), (''lastName'', JStr ''C''),
         (''emailAddress'', JStr ''carol@example.com''), (''password'', JStr ''pw'')]"
  let ?r = "request_of None [] ?b"
  have run1: "router POST_users demo ?r
     = (Responded \<lparr>status = 201, location = Some ''/'', content = NoContent\<rparr>,
        [HashSync (Some (JStr ''pw'')),
         UserCreate
           [(''firstName'', JStr ''Carol''), (''lastName'', JStr ''C''),
            (''emailAddress'', JStr ''carol@example.com''),
            (''password'', JStr ''hashed:pw'')]])"
    by (simp add: run Let_def)
  have s: "status \<lparr>status = 201, location = Some ''/'', content = NoContent\<rparr> = 201"
    by simp
  have b: "body ?r = ?b" "map_of ?b ''password'' = Some (JStr ''pw'')"
    by (simp_all add: request_of_def)
  have h: "hashSync demo (Some (JStr ''pw'')) = Inr ''hashed:pw''"
    by (simp add: run)
  from created_user_stores_hash [OF run1 s] b h
  have "map_of (AList.update ''password'' (JStr ''hashed:pw'') ?b) ''password''
          \<noteq> Some (JStr ''pw'')"
    by auto
  with run1 s h show ?thesis by auto
qed

section \<open>The reading routes and the stored password\<close>

lemma find_forget_password:
  assumes "map forget_password us = map forget_password us'"
    and "\<And>u. p (forget_password u) = p u"
  shows "map_option forget_password (find p us) = map_option forget_password (find p us')"
  using assms(1)
proof (induction us arbitrary: us')
  case Nil
  then show ?case by simp
next
  case (Cons u us)
  then obtain v vs where v: "us' = v # vs" "forget_password u = forget_password v"
    "map forget_password us = map forget_password vs" by (cases us') auto
  from assms(2) [of u] assms(2) [of v] v(2) have "p u = p v" by simp
  with Cons.IH [OF v(3)] v show ?case by simp
qed

lemma select_without_password:
  assumes "''password'' \<notin> set attrs"
  shows "select_columns user_column attrs (forget_password u) = select_columns user_column attrs u"
proof -
  have "\<forall>k \<in> set attrs. user_column (forget_password u) k = user_column u k"
    using assms by (auto simp: user_column_def forget_password_def)
  then show ?thesis
    by (induction attrs)
       (simp_all add: select_columns_def List.map_filter_simps split: option.splits)
qed

lemma included_row_forget:
  assumes "map forget_password (users d) = map forget_password (users d')"
  shows "included_row d course_query c = included_row d' course_query c"
proof -
  let ?p = "\<lambda>u. user_id u = userId c"
  have np: "''password'' \<notin> set (include_User course_query)"
    by (simp add: course_query_def)
  have "map_option forget_password (find ?p (users d))
          = map_option forget_password (find ?p (users d'))"
    using assms by (rule find_forget_password) (simp add: forget_password_def)
  then have "map_option (select_columns user_column (include_User course_query))
               (find ?p (users d))
             = map_option (select_columns user_column (include_User course_query))
               (find ?p (users d'))"
    using select_without_password [OF np]
    by (cases "find ?p (users d)"; cases "find ?p (users d')") (auto, metis)
  then show ?thesis
    by (cases "find ?p (users d)"; cases "find ?p (users d')")
       (auto simp: included_row_def)
qed

lemma get_users_behind_gate:
  assumes "fst (router GET_users P req) = Responded r" and "status r = 200"
  shows "\<exists>c u. auth P req = Some c \<and> User_findOne P (name c) = Inr (Some u)
           \<and> compareSync P (pass c) (password u) = Inr True
           \<and> r = \<lparr>status = 200, location = None,
                   content = Json (JObj
                     [(''id'', JNum (user_id u)),
                      (''firstName'', JStr (firstName u)),
                      (''lastName'', JStr (lastName u)),
                      (''emailAddress'', JStr (emailAddress u))])\<rparr>"
proof -
  obtain x t where g: "authenticateUser P req = (x, t)" by (cases "authenticateUser P req")
  show ?thesis
  proof (cases x)
    case (Next req')
    with g have g': "authenticateUser P req = (Next req', t)" by simp
    from gate_Next [OF g'] obtain c u where cu: "auth P req = Some c"
      "User_findOne P (name c) = Inr (Some u)" "compareSync P (pass c) (password u) = Inr True"
      "req' = req\<lparr>currentUser := Some u\<rparr>" by blast
    from route_behind_gate(4) [OF g'] assms(1) cu(4)
    have "r = \<lparr>status = 200, location = None,
                   content = Json (JObj
                     [(''id'', JNum (user_id u)),
                      (''firstName'', JStr (firstName u)),
                      (''lastName'', JStr (lastName u)),
                      (''emailAddress'', JStr (emailAddress u))])\<rparr>"
      by (simp add: asyncHandler_def get_users_def)
    with cu show ?thesis by blast
  next
    case (Responded y)
    with g have g': "authenticateUser P req = (Responded y, t)" by simp
    with assms(1) have "y = r" by (simp add: after_auth_Responded)
    with gate_Responded [OF g'] assms(2) show ?thesis by (simp add: unauthorized_def)
  next
    case (Raised y)
    with g assms(1) show ?thesis by (simp add: after_auth_Raised)
  qed
qed

text \<open>
  Claim C9. A successful \<^verbatim>\<open>GET /api/users\<close> sends exactly the id, first name, last name
  and e-mail address of the authenticated user. The two course reading routes ask for the
  course columns and, for the owning user, for id, first name, last name and e-mail
  address only; \<^verbatim>\<open>password\<close> is in neither list. So for two stores that differ only in
  the stored password hashes, the course reading routes answer the same, and so does
  \<^verbatim>\<open>GET /api/users\<close> whenever it succeeds on both.
\<close>

theorem reads_never_show_password:
  "(\<forall>r. fst (router GET_users P req) = Responded r \<longrightarrow> status r = 200 \<longrightarrow>
        (\<exists>req' t u. authenticateUser P req = (Next req', t) \<and> currentUser req' = Some u
           \<and> r = \<lparr>status = 200, location = None,
                   content = Json (JObj
                     [(''id'', JNum (user_id u)),
                      (''firstName'', JStr (firstName u)),
                      (''lastName'', JStr (lastName u)),
                      (''emailAddress'', JStr (emailAddress u))])\<rparr>))
   \<and> snd (router GET_courses P req) = [FindAll course_query]
   \<and> snd (router GET_course P req) = [FindByPkIncluding (params_id req) course_query]
   \<and> include_User course_query = [''id'', ''firstName'', ''lastName'', ''emailAddress'']
   \<and> ''password'' \<notin> set (attributes course_query)
   \<and> (map forget_password (users d) = map forget_password (users d') \<longrightarrow>
       courses d = courses d' \<longrightarrow>
         router GET_courses (sequelize_reads d P) req
           = router GET_courses (sequelize_reads d' P) req
         \<and> router GET_course (sequelize_reads d P) req
           = router GET_course (sequelize_reads d' P) req
         \<and> (\<forall>r r'. fst (router GET_users (sequelize_reads d P) req) = Responded r \<longrightarrow>
                   status r = 200 \<longrightarrow>
                   fst (router GET_users (sequelize_reads d' P) req) = Responded r' \<longrightarrow>
                   status r' = 200 \<longrightarrow> r = r'))"
proof (intro conjI allI impI)
  fix r assume a: "fst (router GET_users P req) = Responded r" "status r = 200"
  from get_users_behind_gate [OF a] obtain c u where cu: "auth P req = Some c"
    "User_findOne P (name c) = Inr (Some u)" "compareSync P (pass c) (password u) = Inr True"
    and r: "r = \<lparr>status = 200, location = None,
                   content = Json (JObj
                     [(''id'', JNum (user_id u)),
                      (''firstName'', JStr (firstName u)),
                      (''lastName'', JStr (lastName u)),
                      (''emailAddress'', JStr (emailAddress u))])\<rparr>" by blast
  from cu have "authenticateUser P req =
      (Next (req\<lparr>currentUser := Some u\<rparr>),
       [FindOne (name c), CompareSync (pass c) (password u),
        Info (''Authentication is successful for user: '' @ emailAddress u)])"
    by (simp add: authenticateUser_def)
  moreover have "currentUser (req\<lparr>currentUser := Some u\<rparr>) = Some u" by simp
  ultimately show "\<exists>req' t u. authenticateUser P req = (Next req', t) \<and> currentUser req' = Some u
           \<and> r = \<lparr>status = 200, location = None,
                   content = Json (JObj
                     [(''id'', JNum (user_id u)),
                      (''firstName'', JStr (firstName u)),
                      (''lastName'', JStr (lastName u)),
                      (''emailAddress'', JStr (emailAddress u))])\<rparr>"
    using r by blast
next
  show "snd (router GET_courses P req) = [FindAll course_query]"
    by (simp add: asyncHandler_def get_courses_def split: sum.splits)
  show "snd (router GET_course P req) = [FindByPkIncluding (params_id req) course_query]"
    by (simp add: asyncHandler_def get_course_def split: sum.splits option.splits)
  show "include_User course_query = [''id'', ''firstName'', ''lastName'', ''emailAddress'']"
    by (simp add: course_query_def)
  show "''password'' \<notin> set (attributes course_query)"
    by (simp add: course_query_def)
next
  assume same: "map forget_password (users d) = map forget_password (users d')"
    and cs: "courses d = courses d'"
  have rows: "included_row d course_query = included_row d' course_query"
    by (rule ext) (rule included_row_forget [OF same])
  show "router GET_courses (sequelize_reads d P) req
           = router GET_courses (sequelize_reads d' P) req"
    by (simp add: asyncHandler_def get_courses_def sequelize_reads_def rows cs)
  show "router GET_course (sequelize_reads d P) req
           = router GET_course (sequelize_reads d' P) req"
    by (simp add: asyncHandler_def get_course_def sequelize_reads_def rows cs)
  fix r r'
  assume a: "fst (router GET_users (sequelize_reads d P) req) = Responded r" "status r = 200"
    and a': "fst (router GET_users (sequelize_reads d' P) req) = Responded r'" "status r' = 200"
  from get_users_behind_gate [OF a] obtain c u where
    c: "auth P req = Some c" and u: "find (\<lambda>u. emailAddress u = name c) (users d) = Some u"
    and r: "r = \<lparr>status = 200, location = None,
                   content = Json (JObj
                     [(''id'', JNum (user_id u)),
                      (''firstName'', JStr (firstName u)),
                      (''lastName'', JStr (lastName u)),
                      (''emailAddress'', JStr (emailAddress u))])\<rparr>"
    by (auto simp: sequelize_reads_def)
  from get_users_behind_gate [OF a'] c obtain u' where
    u': "find (\<lambda>u. emailAddress u = name c) (users d') = Some u'"
    and r': "r' = \<lparr>status = 200, location = None,
                   content = Json (JObj
                     [(''id'', JNum (user_id u')),
                      (''firstName'', JStr (firstName u')),
                      (''lastName'', JStr (lastName u')),
                      (''emailAddress'', JStr (emailAddress u'))])\<rparr>"
    by (auto simp: sequelize_reads_def)
  have "map_option forget_password (find (\<lambda>u. emailAddress u = name c) (users d))
          = map_option forget_password (find (\<lambda>u. emailAddress u = name c) (users d'))"
    using same by (rule find_forget_password) (simp add: forget_password_def)
  with u u' have "forget_password u = forget_password u'" by simp
  then have "user_id u = user_id u' \<and> firstName u = firstName u' \<and> lastName u = lastName u'
      \<and> emailAddress u = emailAddress u'"
    by (cases u; cases u') (simp add: forget_password_def)
  with r r' show "r = r'" by simp
qed

theorem reads_never_show_password_witness:
  "users resalted_db \<noteq> users demo_db
   \<and> map forget_password (users demo_db) = map forget_password (users resalted_db)
   \<and> courses demo_db = courses resalted_db
   \<and> fst (router GET_users (sequelize_reads demo_db demo_salted)
            (request_of (Some ''alice@example.com:correct-secret'') ''2'' []))
       = Responded \<lparr>status = 200, location = None,
                     content = Json (JObj
                       [(''id'', JNum 1), (''firstName'', JStr ''Alice''),
                        (''lastName'', JStr ''A''),
                        (''emailAddress'', JStr ''alice@example.com'')])\<rparr>
   \<and> fst (router GET_users (sequelize_reads resalted_db demo_salted)
            (request_of (Some ''alice@example.com:correct-secret'') ''2'' []))
       = fst (router GET_users (sequelize_reads demo_db demo_salted)
            (request_of (Some ''alice@example.com:correct-secret'') ''2'' []))
   \<and> router GET_courses (sequelize_reads demo_db demo_salted)
            (request_of (Some ''alice@example.com:correct-secret'') ''2'' [])
       = router GET_courses (sequelize_reads resalted_db demo_salted)
            (request_of (Some ''alice@example.com:correct-secret'') ''2'' [])
   \<and> router GET_course (sequelize_reads demo_db demo_salted)
            (request_of (Some ''alice@example.com:correct-secret'') ''2'' [])
       = router GET_course (sequelize_reads resalted_db demo_salted)
            (request_of (Some ''alice@example.com:correct-secret'') ''2'' [])"
proof -
  let ?r = "request_of (Some ''alice@example.com:correct-secret'') ''2'' []"
  let ?a = "\<lparr>status = 200, location = None,
                     content = Json (JObj
                       [(''id'', JNum 1), (''firstName'', JStr ''Alice''),
                        (''lastName'', JStr ''A''),
                        (''emailAddress'', JStr ''alice@example.com'')])\<rparr>"
  have d: "users resalted_db \<noteq> users demo_db"
    by (simp add: resalted_db_def demo_db_def alice_def)
  have same: "map forget_password (users demo_db) = map forget_password (users resalted_db)"
    by (simp add: resalted_db_def demo_db_def forget_password_def)
  have cs: "courses demo_db = courses resalted_db"
    by (simp add: resalted_db_def demo_db_def)
  have r1: "fst (router GET_users (sequelize_reads demo_db demo_salted) ?r) = Responded ?a"
    by (simp add: demo_salted_def run)
  obtain r' where r2: "fst (router GET_users (sequelize_reads resalted_db demo_salted) ?r)
      = Responded r'" and s2: "status r' = 200"
    by (simp add: demo_salted_def resalted_db_def run)
  have s1: "status ?a = 200" by simp
  note t = reads_never_show_password [of demo_salted ?r demo_db resalted_db]
  from t same cs r1 s1 r2 s2 have "?a = r'" by blast
  with r1 r2 have u: "fst (router GET_users (sequelize_reads resalted_db demo_salted) ?r)
       = fst (router GET_users (sequelize_reads demo_db demo_salted) ?r)" by simp
  from t same cs have c: "router GET_courses (sequelize_reads demo_db demo_salted) ?r
       = router GET_courses (sequelize_reads resalted_db demo_salted) ?r"
    and k: "router GET_course (sequelize_reads demo_db demo_salted) ?r
       = router GET_course (sequelize_reads resalted_db demo_salted) ?r"
    by blast+
  from d same cs r1 u c k show ?thesis by blast
qed

end
